theory Spec2Isabelle
  imports Complex_Main "HOL-Library.Log_Nat"
begin

section \<open>Data model (types.ts)\<close>

text \<open>
  The study assistant is a TypeScript/React application. Its data model is the
  module \<^verbatim>\<open>types.ts\<close>: string-literal unions become datatypes, interfaces
  become records. A field the interface marks optional (\<^verbatim>\<open>options?\<close>) is an
  \<open>option\<close>.
\<close>

datatype QuestionType = MultipleChoice | ShortAnswer | Ox

record AchievementStandard =
  std_id :: string
  description :: string

record QuizQuestion =
  question :: string
  questionType :: QuestionType
  options :: "string list option"
  answer :: string
  explanation :: string

text \<open>
  JavaScript numbers are IEEE 754 doubles. The counts of the quiz are integers
  below \<open>2\<^sup>5\<^sup>3\<close>, which are doubles themselves, and are modelled as \<open>int\<close>. The
  score is the only fractional number of the program. A finite double is a
  rational number, and \<open>Finite x\<close> is the double whose value is exactly \<open>x\<close>
  (the sign of zero is not kept); the other values of a number are
  \<^verbatim>\<open>NaN\<close> and the two infinities.
\<close>

datatype jsnumber = NaN | Infinity | NegativeInfinity | Finite rat

record QuizResult =
  result_id :: string
  date :: string
  standardId :: string
  standardDescription :: string
  subject :: string
  score :: jsnumber
  totalQuestions :: int
  correctAnswers :: int

datatype Role = User | Model

record ConversationMessage =
  role :: Role
  msg_text :: string

section \<open>JavaScript arithmetic\<close>

text \<open>
  An arithmetic operation on doubles yields the double nearest to the exact
  result, ties going to the even significand. A double has 53 significant bits
  and a unit in the last place of at least \<open>2\<^sup>-\<^sup>1\<^sup>0\<^sup>7\<^sup>4\<close>; a result that rounds to
  \<open>2\<^sup>1\<^sup>0\<^sup>2\<^sup>4\<close> or beyond is an infinity.

  \<open>pow2 k\<close> is \<open>2\<^sup>k\<close>; \<open>exponent x\<close> is the \<open>e\<close> with \<open>2\<^sup>e \<le> x < 2\<^sup>e\<^sup>+\<^sup>1\<close> for a
  positive \<open>x\<close>, found from the bit lengths of numerator and denominator.
\<close>

definition pow2 :: "int \<Rightarrow> rat" where
  "pow2 k = (if 0 \<le> k then 2 ^ nat k else 1 / 2 ^ nat (- k))"

definition exponent :: "rat \<Rightarrow> int" where
  "exponent x =
     (case quotient_of x of (a, b) \<Rightarrow>
        let e = bitlen a - bitlen b in if pow2 e \<le> x then e else e - 1)"

definition roundHalfEven :: "rat \<Rightarrow> int" where
  "roundHalfEven y =
     (let f = \<lfloor>y\<rfloor>; d = y - of_int f
      in if d < 1 / 2 then f else if 1 / 2 < d then f + 1 else if even f then f else f + 1)"

definition nearestDouble :: "rat \<Rightarrow> rat" where
  "nearestDouble x =
     (if x = 0 then 0
      else let k = max (exponent \<bar>x\<bar> - 52) (- 1074)
           in of_int (roundHalfEven (x / pow2 k)) * pow2 k)"

definition toNumber :: "rat \<Rightarrow> jsnumber" where
  "toNumber x =
     (let r = nearestDouble x
      in if r \<noteq> 0 \<and> 1024 \<le> exponent \<bar>r\<bar>
         then (if 0 < r then Infinity else NegativeInfinity)
         else Finite r)"

text \<open>
  \<^verbatim>\<open>a / b\<close> for an integer \<open>a\<close> and a length \<open>b\<close>, and \<^verbatim>\<open>v * 100\<close>.
\<close>

definition js_divide :: "int \<Rightarrow> nat \<Rightarrow> jsnumber" where
  "js_divide a b =
     (if b = 0 then (if a = 0 then NaN else if 0 < a then Infinity else NegativeInfinity)
      else toNumber (of_int a / of_nat b))"

definition js_times100 :: "jsnumber \<Rightarrow> jsnumber" where
  "js_times100 v = (case v of Finite x \<Rightarrow> toNumber (x * 100) | other \<Rightarrow> other)"

section \<open>JavaScript arrays\<close>

text \<open>
  The quiz keeps two arrays, \<^verbatim>\<open>(string | null)[]\<close> and \<^verbatim>\<open>(boolean | null)[]\<close>.
  An array slot holds \<^verbatim>\<open>undefined\<close>, \<^verbatim>\<open>null\<close>, a value, or nothing at
  all: writing past the end of a JavaScript array extends it and leaves holes.
  Reading a hole, or reading past the end, gives \<^verbatim>\<open>undefined\<close>; \<^verbatim>\<open>reduce\<close>
  skips holes; and the copy \<^verbatim>\<open>[...xs]\<close> has \<^verbatim>\<open>undefined\<close> where \<open>xs\<close> has a
  hole.
\<close>

datatype 'a slot = Hole | Undefined | Null | Val 'a

definition js_get :: "'a slot list \<Rightarrow> nat \<Rightarrow> 'a slot" where
  "js_get xs i =
     (if i < length xs then (if xs ! i = Hole then Undefined else xs ! i) else Undefined)"

definition spread :: "'a slot list \<Rightarrow> 'a slot list" where
  "spread xs = map (\<lambda>x. if x = Hole then Undefined else x) xs"

definition js_set :: "'a slot list \<Rightarrow> nat \<Rightarrow> 'a slot \<Rightarrow> 'a slot list" where
  "js_set xs i v =
     (if i < length xs then xs[i := v]
      else xs @ replicate (i - length xs) Hole @ [v])"

section \<open>The quiz runner (components/Quiz.tsx)\<close>

text \<open>
  The component state is the six \<^verbatim>\<open>useState\<close> cells of \<^verbatim>\<open>Quiz\<close>. A handler
  reads the cells of the render it was created in and queues updates; React
  applies the queued updates of one handler together, so a handler is a function
  from the state to the next state.
\<close>

record quiz_state =
  currentQuestionIndex :: nat
  userAnswers :: "string slot list"
  isAnswerChecked :: bool
  showResults :: bool
  tempShortAnswer :: string
  selfAssessedCorrectness :: "bool slot list"

definition Quiz_init :: "QuizQuestion list \<Rightarrow> quiz_state" where
  "Quiz_init questions =
     \<lparr>currentQuestionIndex = 0,
      userAnswers = replicate (length questions) Null,
      isAnswerChecked = False,
      showResults = False,
      tempShortAnswer = [],
      selfAssessedCorrectness = replicate (length questions) Null\<rparr>"

definition handleAnswerSelect :: "quiz_state \<Rightarrow> string \<Rightarrow> quiz_state" where
  "handleAnswerSelect s opt =
     (if isAnswerChecked s then s
      else s\<lparr>userAnswers :=
               js_set (spread (userAnswers s)) (currentQuestionIndex s) (Val opt)\<rparr>)"

definition handleShortAnswerChange :: "quiz_state \<Rightarrow> string \<Rightarrow> quiz_state" where
  "handleShortAnswerChange s v =
     (if isAnswerChecked s then s else s\<lparr>tempShortAnswer := v\<rparr>)"

text \<open>
  \<^verbatim>\<open>currentQuestion\<close> is the constant a render computes as
  \<^verbatim>\<open>questions[currentQuestionIndex]\<close>; the handlers close over it.
\<close>

definition handleCheckAnswer :: "QuizQuestion \<Rightarrow> quiz_state \<Rightarrow> quiz_state" where
  "handleCheckAnswer currentQuestion s =
     (let s' = (if questionType currentQuestion = ShortAnswer
                then handleAnswerSelect s (tempShortAnswer s) else s)
      in s'\<lparr>isAnswerChecked := True\<rparr>)"

definition handleSelfAssessment :: "quiz_state \<Rightarrow> bool \<Rightarrow> quiz_state" where
  "handleSelfAssessment s isCorrect =
     s\<lparr>selfAssessedCorrectness :=
          js_set (spread (selfAssessedCorrectness s)) (currentQuestionIndex s)
            (Val isCorrect)\<rparr>"

datatype js_error = TypeError

text \<open>
  The callback of \<^verbatim>\<open>userAnswers.reduce\<close> in \<^verbatim>\<open>handleNext\<close>, run over the array
  from \<open>index\<close> on with the count so far. A hole is skipped; at any other slot the
  callback reads \<^verbatim>\<open>questions[index].questionType\<close>, which throws when the
  question list is shorter than the answer array. \<^verbatim>\<open>===\<close> compares a slot with a
  string or with \<^verbatim>\<open>true\<close>: only a value of that very content is equal.
\<close>

fun reduce_correct ::
  "QuizQuestion list \<Rightarrow> bool slot list \<Rightarrow> string slot list \<Rightarrow> nat \<Rightarrow> int \<Rightarrow> int option" where
  "reduce_correct questions selfAssessed [] index count = Some count"
| "reduce_correct questions selfAssessed (a # rest) index count =
     (if a = Hole then reduce_correct questions selfAssessed rest (Suc index) count
      else if length questions \<le> index then None
      else
        let question = questions ! index;
            isCorrect = (if questionType question = ShortAnswer
                         then js_get selfAssessed index = Val True
                         else a = Val (answer question))
        in reduce_correct questions selfAssessed rest (Suc index)
             (if isCorrect then count + 1 else count))"

text \<open>
  \<^verbatim>\<open>(correctCount / questions.length) * 100\<close>: a division and a
  multiplication, each rounded.
\<close>

definition scorePercentage :: "int \<Rightarrow> nat \<Rightarrow> jsnumber" where
  "scorePercentage correctCount len = js_times100 (js_divide correctCount len)"

text \<open>The three arguments of the \<^verbatim>\<open>onSubmit\<close> callback.\<close>

datatype submission = Submission jsnumber int int

text \<open>
  \<^verbatim>\<open>handleNext\<close> returns the next state and what it did besides: nothing, the
  call of \<^verbatim>\<open>onSubmit\<close>, or the exception that escaped it (after
  \<^verbatim>\<open>setShowResults(true)\<close> was queued). The source compares
  \<^verbatim>\<open>currentQuestionIndex < questions.length - 1\<close> on numbers, where the right
  side is \<open>-1\<close> for the empty list.
\<close>

definition handleNext ::
  "QuizQuestion list \<Rightarrow> quiz_state \<Rightarrow> quiz_state \<times> (js_error + submission option)" where
  "handleNext questions s =
     (if int (currentQuestionIndex s) < int (length questions) - 1
      then (s\<lparr>currentQuestionIndex := currentQuestionIndex s + 1,
               isAnswerChecked := False,
               tempShortAnswer := []\<rparr>, Inr None)
      else
        (case reduce_correct questions (selfAssessedCorrectness s) (userAnswers s) 0 0 of
           None \<Rightarrow> (s\<lparr>showResults := True\<rparr>, Inl TypeError)
         | Some correctCount \<Rightarrow>
             (s\<lparr>showResults := True\<rparr>,
              Inr (Some (Submission (scorePercentage correctCount (length questions))
                           correctCount (int (length questions)))))))"

subsection \<open>What the render offers\<close>

definition isCheckAnswerDisabled :: "QuizQuestion \<Rightarrow> quiz_state \<Rightarrow> bool" where
  "isCheckAnswerDisabled currentQuestion s =
     (js_get (userAnswers s) (currentQuestionIndex s) = Null \<and>
      (questionType currentQuestion \<noteq> ShortAnswer \<or> tempShortAnswer s = []))"

definition isNextButtonDisabled :: "QuizQuestion \<Rightarrow> quiz_state \<Rightarrow> bool" where
  "isNextButtonDisabled currentQuestion s =
     (isAnswerChecked s \<and> questionType currentQuestion = ShortAnswer \<and>
      js_get (selfAssessedCorrectness s) (currentQuestionIndex s) = Null)"

text \<open>
  The option buttons of \<^verbatim>\<open>renderQuestionInput\<close>:
  \<^verbatim>\<open>currentQuestion.options || (questionType === 'ox' ? ['O', 'X'] : [])\<close>; an
  empty array is truthy, so only an absent field takes the default.
\<close>

definition renderedOptions :: "QuizQuestion \<Rightarrow> string list" where
  "renderedOptions currentQuestion =
     (case questionType currentQuestion of
        ShortAnswer \<Rightarrow> []
      | _ \<Rightarrow> (case options currentQuestion of
                Some os \<Rightarrow> os
              | None \<Rightarrow> if questionType currentQuestion = Ox then [''O'', ''X''] else []))"

text \<open>
  What the user can do to a rendered quiz. A control that is not rendered or is
  disabled cannot fire, so its event leaves the state as it is. Once
  \<^verbatim>\<open>showResults\<close> is set the component renders \<^verbatim>\<open>null\<close>. Before that a
  render reads \<^verbatim>\<open>currentQuestion.question\<close> and throws when there is no
  current question, which is what happens to an empty question list at once.
\<close>

datatype event =
    ClickOption string
  | TypeShortAnswer string
  | ClickCheck
  | ClickSelfAssess bool
  | ClickNext

definition quiz_step ::
  "QuizQuestion list \<Rightarrow> quiz_state \<Rightarrow> event \<Rightarrow> js_error + (quiz_state \<times> submission option)" where
  "quiz_step questions s ev =
     (if showResults s then Inr (s, None)
      else if length questions \<le> currentQuestionIndex s then Inl TypeError
      else
        let currentQuestion = questions ! currentQuestionIndex s in
        case ev of
          ClickOption opt \<Rightarrow>
            if opt \<in> set (renderedOptions currentQuestion) \<and> \<not> isAnswerChecked s
            then Inr (handleAnswerSelect s opt, None) else Inr (s, None)
        | TypeShortAnswer v \<Rightarrow>
            if questionType currentQuestion = ShortAnswer \<and> \<not> isAnswerChecked s
            then Inr (handleShortAnswerChange s v, None) else Inr (s, None)
        | ClickCheck \<Rightarrow>
            if \<not> isAnswerChecked s \<and> \<not> isCheckAnswerDisabled currentQuestion s
            then Inr (handleCheckAnswer currentQuestion s, None) else Inr (s, None)
        | ClickSelfAssess isCorrect \<Rightarrow>
            if questionType currentQuestion = ShortAnswer \<and> isAnswerChecked s \<and>
               js_get (selfAssessedCorrectness s) (currentQuestionIndex s) = Null
            then Inr (handleSelfAssessment s isCorrect, None) else Inr (s, None)
        | ClickNext \<Rightarrow>
            if isAnswerChecked s \<and> \<not> isNextButtonDisabled currentQuestion s
            then (case handleNext questions s of
                    (s', Inl e) \<Rightarrow> Inr (s', None)
                  | (s', Inr sub) \<Rightarrow> Inr (s', sub))
            else Inr (s, None))"

text \<open>
  A whole sitting: the events in order, from a given state, with every
  \<^verbatim>\<open>onSubmit\<close> call collected in order.
\<close>

fun run_quiz ::
  "QuizQuestion list \<Rightarrow> quiz_state \<Rightarrow> event list \<Rightarrow> js_error + (quiz_state \<times> submission list)" where
  "run_quiz questions s [] = Inr (s, [])"
| "run_quiz questions s (ev # evs) =
     (case quiz_step questions s ev of
        Inl e \<Rightarrow> Inl e
      | Inr (s', sub) \<Rightarrow>
          (case run_quiz questions s' evs of
             Inl e \<Rightarrow> Inl e
           | Inr (s'', subs) \<Rightarrow>
               Inr (s'', (case sub of None \<Rightarrow> subs | Some x \<Rightarrow> x # subs))))"

text \<open>
  The mounted component: an empty question list throws in the first render, before
  any event.
\<close>

definition Quiz ::
  "QuizQuestion list \<Rightarrow> event list \<Rightarrow> js_error + (quiz_state \<times> submission list)" where
  "Quiz questions evs =
     (if questions = [] then Inl TypeError else run_quiz questions (Quiz_init questions) evs)"

section \<open>The gateway to the generative service (services/geminiService.ts)\<close>

subsection \<open>Errors\<close>

text \<open>
  Every failure of the program is a JavaScript \<^verbatim>\<open>Error\<close> told apart by its
  message only. The messages the application itself raises or displays are fixed
  Korean sentences, one constructor each; \<open>Raw\<close> is the message of an error that
  comes from outside (the SDK, \<^verbatim>\<open>JSON.parse\<close>, the browser).

  \<^item> \<open>MsgKeyMissing\<close>: \<^verbatim>\<open>initializeAi\<close>, no key was given.
  \<^item> \<open>MsgNotInitialized\<close>: \<^verbatim>\<open>getAi\<close>, the service is not initialised.
  \<^item> \<open>MsgKeyInvalid\<close>: \<^verbatim>\<open>handleApiError\<close>, the key is not valid, set it again.
  \<^item> \<open>MsgFileProtocol\<close>: \<^verbatim>\<open>handleApiError\<close>, the page was opened from a file.
  \<^item> \<open>MsgCommunication\<close>: \<^verbatim>\<open>handleApiError\<close>, communication with the model
    failed, check the network or retry.
  \<^item> \<open>MsgEnterKey\<close>: \<^verbatim>\<open>validateApiKey\<close>, please enter a key.
  \<^item> \<open>MsgKeyInvalidOnCheck\<close>: \<^verbatim>\<open>validateApiKey\<close>, the key is not valid.
  \<^item> \<open>MsgKeyCheckFailed\<close>: \<^verbatim>\<open>validateApiKey\<close>, the check failed, check the
    network.
  \<^item> \<open>MsgNoAudio\<close>: \<^verbatim>\<open>generateSpeech\<close>, no audio data was received.
  \<^item> \<open>MsgExplanationFailed\<close>, \<open>MsgAnsweringFailed\<close>, \<open>MsgSpeechFailed\<close>: the
    defaults the session shows for a thrown value that is not an \<^verbatim>\<open>Error\<close>.
\<close>

datatype message =
    Raw string
  | MsgKeyMissing
  | MsgNotInitialized
  | MsgKeyInvalid
  | MsgFileProtocol
  | MsgCommunication
  | MsgEnterKey
  | MsgKeyInvalidOnCheck
  | MsgKeyCheckFailed
  | MsgNoAudio
  | MsgExplanationFailed
  | MsgAnsweringFailed
  | MsgSpeechFailed

text \<open>A thrown value: an \<^verbatim>\<open>Error\<close> with its message, or anything else.\<close>

datatype thrown = Error message | NonError

text \<open>\<^verbatim>\<open>String.prototype.includes\<close>.\<close>

fun js_includes :: "string \<Rightarrow> string \<Rightarrow> bool" where
  "js_includes [] sub = (sub = [])"
| "js_includes (c # cs) sub = (take (length sub) (c # cs) = sub \<or> js_includes cs sub)"

text \<open>
  None of the application's own Korean sentences contains either of the two
  English phrases that are searched for.
\<close>

definition message_includes :: "message \<Rightarrow> string \<Rightarrow> bool" where
  "message_includes m sub = (case m of Raw t \<Rightarrow> js_includes t sub | _ \<Rightarrow> False)"

text \<open>
  The test both \<^verbatim>\<open>handleApiError\<close> and \<^verbatim>\<open>validateApiKey\<close> apply to a caught
  value: \<^verbatim>\<open>error instanceof Error && (error.message.includes("API key not valid")
  || error.message.includes("Requested entity was not found."))\<close>.
\<close>

definition isInvalidKeyError :: "thrown \<Rightarrow> bool" where
  "isInvalidKeyError error =
     (case error of
        Error m \<Rightarrow> message_includes m ''API key not valid'' \<or>
                   message_includes m ''Requested entity was not found.''
      | NonError \<Rightarrow> False)"

subsection \<open>The service\<close>

text \<open>
  The client object, \<^verbatim>\<open>new GoogleGenAI({ apiKey })\<close>, is its key. A request is the
  client, the model name and the prompt; the Korean prompt templates are kept as
  the values interpolated into them. The parameter the source calls
  \<^verbatim>\<open>standardDescription\<close> is \<open>topicDescription\<close> here, the former being a field
  of \<open>QuizResult\<close>.
\<close>

datatype GoogleGenAI = GoogleGenAI string

datatype TTSVoice = Kore | Puck | Charon | Fenrir | Zephyr

record QuestionRequest =
  type :: QuestionType
  count :: int

datatype prompt =
    Hello
  | ExplanationPrompt string
  | FollowUpPrompt string string "ConversationMessage list" string
  | QuestionsPrompt int "QuestionRequest list" string
  | SpeechPrompt string TTSVoice

datatype call = Call GoogleGenAI string prompt

text \<open>
  JSON values, and the text of a response as \<^verbatim>\<open>JSON.parse\<close> sees it: either
  the value it denotes, or the message of the \<^verbatim>\<open>SyntaxError\<close> that parsing it
  raises (an absent text is of this kind). An object is the parsed object, each
  key at most once.
\<close>

datatype json =
    JNull
  | JBool bool
  | JNumber rat
  | JString string
  | JArray "json list"
  | JObject "(string \<times> json) list"

datatype json_text = NotJson string | Json json

record GenerateContentResponse =
  response_text :: json_text
  inlineData :: "string option"

datatype stream_end = StreamDone | StreamThrew thrown

text \<open>
  A stream delivers chunks and then ends or throws. The program reads only the
  \<^verbatim>\<open>text\<close> of a chunk, which the SDK types \<^verbatim>\<open>string | undefined\<close>: a chunk is
  its text, if it has one. \<open>appended t\<close> is what \<^verbatim>\<open>+=\<close> appends to a string
  for such a value: the text, or the nine letters of \<^verbatim>\<open>undefined\<close>.
\<close>

record fragment_stream =
  chunks :: "string option list"
  ending :: stream_end

definition appended :: "string option \<Rightarrow> string" where
  "appended t = (case t of Some text \<Rightarrow> text | None \<Rightarrow> ''undefined'')"

text \<open>
  The service itself is outside the program: what it answers to a request is a
  parameter. \<open>Inl\<close> is the value the SDK call throws.
\<close>

record backend =
  generateContent :: "call \<Rightarrow> thrown + GenerateContentResponse"
  generateContentStream :: "call \<Rightarrow> thrown + fragment_stream"

text \<open>
  The state of the module and of its surroundings: the module-level variable
  \<^verbatim>\<open>ai\<close>, whether the page runs from a \<^verbatim>\<open>file:\<close> URL, the values written with
  \<^verbatim>\<open>console.error\<close>, and the requests sent so far.
\<close>

datatype console_entry = GeminiApiError thrown | KeyValidationFailed thrown

record gateway =
  ai :: "GoogleGenAI option"
  fileProtocol :: bool
  console :: "console_entry list"
  calls :: "call list"

definition initializeAi :: "gateway \<Rightarrow> string \<Rightarrow> (message + unit) \<times> gateway" where
  "initializeAi w apiKey =
     (if apiKey = [] then (Inl MsgKeyMissing, w)
      else (Inr (), w\<lparr>ai := Some (GoogleGenAI apiKey)\<rparr>))"

definition getAi :: "gateway \<Rightarrow> thrown + GoogleGenAI" where
  "getAi w = (case ai w of None \<Rightarrow> Inl (Error MsgNotInitialized) | Some a \<Rightarrow> Inr a)"

text \<open>\<^verbatim>\<open>handleApiError\<close> never returns: the result is the message it throws.\<close>

definition handleApiError :: "gateway \<Rightarrow> thrown \<Rightarrow> message \<times> gateway" where
  "handleApiError w error =
     (let w' = w\<lparr>console := console w @ [GeminiApiError error]\<rparr> in
      if isInvalidKeyError error then (MsgKeyInvalid, w')
      else if fileProtocol w then (MsgFileProtocol, w')
      else (MsgCommunication, w'))"

definition failWith :: "gateway \<Rightarrow> thrown \<Rightarrow> (message + 'a) \<times> gateway" where
  "failWith w error = (case handleApiError w error of (m, w') \<Rightarrow> (Inl m, w'))"

definition validateApiKey :: "backend \<Rightarrow> gateway \<Rightarrow> string \<Rightarrow> (message + unit) \<times> gateway" where
  "validateApiKey be w apiKey =
     (if apiKey = [] then (Inl MsgEnterKey, w)
      else
        let tempAi = GoogleGenAI apiKey;
            request = Call tempAi ''gemini-2.5-flash'' Hello;
            w' = w\<lparr>calls := calls w @ [request]\<rparr>
        in (case generateContent be request of
             Inr response \<Rightarrow> (Inr (), w')
           | Inl error \<Rightarrow>
               (Inl (if isInvalidKeyError error then MsgKeyInvalidOnCheck
                     else MsgKeyCheckFailed),
                w'\<lparr>console := console w' @ [KeyValidationFailed error]\<rparr>)))"

definition getExplanationStream ::
  "backend \<Rightarrow> gateway \<Rightarrow> string \<Rightarrow> (message + fragment_stream) \<times> gateway" where
  "getExplanationStream be w topicDescription =
     (case getAi w of
        Inl error \<Rightarrow> failWith w error
      | Inr aiInstance \<Rightarrow>
          let request = Call aiInstance ''gemini-2.5-flash''
                          (ExplanationPrompt topicDescription);
              w' = w\<lparr>calls := calls w @ [request]\<rparr>
          in (case generateContentStream be request of
               Inl error \<Rightarrow> failWith w' error
             | Inr response \<Rightarrow> (Inr response, w')))"

definition getFollowUpAnswerStream ::
  "backend \<Rightarrow> gateway \<Rightarrow> string \<Rightarrow> string \<Rightarrow> ConversationMessage list \<Rightarrow> string \<Rightarrow>
   (message + fragment_stream) \<times> gateway" where
  "getFollowUpAnswerStream be w topicDescription initialExplanation
       conversationHistory userQuestion =
     (case getAi w of
        Inl error \<Rightarrow> failWith w error
      | Inr aiInstance \<Rightarrow>
          let request = Call aiInstance ''gemini-2.5-flash''
                          (FollowUpPrompt topicDescription initialExplanation
                             conversationHistory userQuestion);
              w' = w\<lparr>calls := calls w @ [request]\<rparr>
          in (case generateContentStream be request of
               Inl error \<Rightarrow> failWith w' error
             | Inr response \<Rightarrow> (Inr response, w')))"

text \<open>
  \<^verbatim>\<open>generateQuestions\<close>. The total is
  \<^verbatim>\<open>requests.reduce((sum, req) => sum + req.count, 0)\<close>. The value returned is
  \<^verbatim>\<open>JSON.parse(response.text)\<close> as it is: \<^verbatim>\<open>as QuizQuestion[]\<close> is a
  compile-time cast and checks nothing at run time.
\<close>

definition generateQuestions ::
  "backend \<Rightarrow> gateway \<Rightarrow> string \<Rightarrow> QuestionRequest list \<Rightarrow> (message + json) \<times> gateway" where
  "generateQuestions be w topicDescription requests =
     (let totalQuestions = foldl (\<lambda>sum req. sum + count req) 0 requests in
      if totalQuestions = 0 then (Inr (JArray []), w)
      else
        case getAi w of
          Inl error \<Rightarrow> failWith w error
        | Inr aiInstance \<Rightarrow>
            let request = Call aiInstance ''gemini-2.5-flash''
                            (QuestionsPrompt totalQuestions
                               (filter (\<lambda>req. count req > 0) requests)
                               topicDescription);
                w' = w\<lparr>calls := calls w @ [request]\<rparr>
            in (case generateContent be request of
                 Inl error \<Rightarrow> failWith w' error
               | Inr response \<Rightarrow>
                   (case response_text response of
                      NotJson m \<Rightarrow> failWith w' (Error (Raw m))
                    | Json questions \<Rightarrow> (Inr questions, w'))))"

text \<open>
  \<^verbatim>\<open>generateSpeech\<close>: \<^verbatim>\<open>if (!base64Audio)\<close> rejects an absent payload and the
  empty string alike, and the error it throws is caught by the function's own
  \<^verbatim>\<open>catch\<close>.
\<close>

definition generateSpeech ::
  "backend \<Rightarrow> gateway \<Rightarrow> string \<Rightarrow> TTSVoice \<Rightarrow> (message + string) \<times> gateway" where
  "generateSpeech be w textToSpeak voice =
     (case getAi w of
        Inl error \<Rightarrow> failWith w error
      | Inr aiInstance \<Rightarrow>
          let request = Call aiInstance ''gemini-2.5-flash-preview-tts''
                          (SpeechPrompt textToSpeak voice);
              w' = w\<lparr>calls := calls w @ [request]\<rparr>
          in (case generateContent be request of
               Inl error \<Rightarrow> failWith w' error
             | Inr response \<Rightarrow>
                 (case inlineData response of
                    None \<Rightarrow> failWith w' (Error MsgNoAudio)
                  | Some base64Audio \<Rightarrow>
                      if base64Audio = [] then failWith w' (Error MsgNoAudio)
                      else (Inr base64Audio, w'))))"

text \<open>
  The schema \<^verbatim>\<open>generateQuestions\<close> sends with its request
  (\<^verbatim>\<open>responseSchema\<close>): an array of objects whose \<^verbatim>\<open>question\<close>,
  \<^verbatim>\<open>questionType\<close>, \<^verbatim>\<open>answer\<close> and \<^verbatim>\<open>explanation\<close> are required strings and
  whose \<^verbatim>\<open>options\<close>, when present, is an array of strings.
\<close>

definition isString :: "json \<Rightarrow> bool" where
  "isString j = (case j of JString t \<Rightarrow> True | _ \<Rightarrow> False)"

definition isStringArray :: "json \<Rightarrow> bool" where
  "isStringArray j = (case j of JArray items \<Rightarrow> list_all isString items | _ \<Rightarrow> False)"

definition requiredString :: "(string \<times> json) list \<Rightarrow> string \<Rightarrow> bool" where
  "requiredString props name =
     (case map_of props name of Some v \<Rightarrow> isString v | None \<Rightarrow> False)"

definition matchesItemSchema :: "json \<Rightarrow> bool" where
  "matchesItemSchema j =
     (case j of
        JObject props \<Rightarrow>
          requiredString props ''question'' \<and>
          requiredString props ''questionType'' \<and>
          requiredString props ''answer'' \<and>
          requiredString props ''explanation'' \<and>
          (case map_of props ''options'' of None \<Rightarrow> True | Some v \<Rightarrow> isStringArray v)
      | _ \<Rightarrow> False)"

definition matchesResponseSchema :: "json \<Rightarrow> bool" where
  "matchesResponseSchema j =
     (case j of JArray items \<Rightarrow> list_all matchesItemSchema items | _ \<Rightarrow> False)"

section \<open>The clock\<close>

text \<open>
  \<^verbatim>\<open>new Date().toISOString()\<close> reads the wall clock, a number of milliseconds
  since the epoch, and prints it as \<^verbatim>\<open>YYYY-MM-DDTHH:mm:ss.sssZ\<close> in UTC; a year
  outside 0..9999 is printed with a sign and six digits. The date of a day number
  is computed in the proleptic Gregorian calendar, in 400-year eras that begin on
  1 March.
\<close>

definition digit :: "int \<Rightarrow> char" where
  "digit n = ''0123456789'' ! nat (n mod 10)"

definition pad2 :: "int \<Rightarrow> string" where
  "pad2 n = [digit (n div 10), digit n]"

definition pad3 :: "int \<Rightarrow> string" where
  "pad3 n = digit (n div 100) # pad2 n"

definition pad4 :: "int \<Rightarrow> string" where
  "pad4 n = digit (n div 1000) # pad3 n"

definition pad6 :: "int \<Rightarrow> string" where
  "pad6 n = digit (n div 100000) # digit (n div 10000) # pad4 n"

definition civil :: "int \<Rightarrow> int \<times> int \<times> int" where
  "civil day =
     (let z = day + 719468;
          era = z div 146097;
          doe = z mod 146097;
          yoe = (doe - doe div 1460 + doe div 36524 - doe div 146096) div 365;
          doy = doe - (365 * yoe + yoe div 4 - yoe div 100);
          mp = (5 * doy + 2) div 153;
          d = doy - (153 * mp + 2) div 5 + 1;
          m = (if mp < 10 then mp + 3 else mp - 9);
          y = yoe + era * 400 + (if m \<le> 2 then 1 else 0)
      in (y, m, d))"

definition toISOString :: "int \<Rightarrow> string" where
  "toISOString t =
     (let ms = t mod 86400000 in
      case civil (t div 86400000) of
        (y, m, d) \<Rightarrow>
          (if 0 \<le> y \<and> y \<le> 9999 then pad4 y
           else (if y < 0 then ''-'' else ''+'') @ pad6 (abs y))
          @ ''-'' @ pad2 m @ ''-'' @ pad2 d
          @ ''T'' @ pad2 (ms div 3600000)
          @ '':'' @ pad2 (ms div 60000 mod 60)
          @ '':'' @ pad2 (ms div 1000 mod 60)
          @ ''.'' @ pad3 (ms mod 1000) @ ''Z'')"

section \<open>The study session (components/StudySession.tsx)\<close>

text \<open>
  The state of one mounted \<^verbatim>\<open>StudySession\<close>: its \<^verbatim>\<open>useState\<close> cells and its two
  audio refs. The cells of quiz composition (\<^verbatim>\<open>questionCounts\<close>,
  \<^verbatim>\<open>questions\<close>, \<^verbatim>\<open>isGeneratingQuestions\<close>, \<^verbatim>\<open>questionsError\<close>) are left out:
  none of the handlers below reads or writes them. The cell \<^verbatim>\<open>explanation\<close> is
  \<open>sessionExplanation\<close> here, the former being a field of \<open>QuizQuestion\<close>.

  \<open>audioContextRef\<close> holds the \<^verbatim>\<open>state\<close> of the context it refers to;
  \<open>pendingCloses\<close> counts the \<^verbatim>\<open>close()\<close> promises of \<^verbatim>\<open>stopAllAudio\<close> whose
  \<^verbatim>\<open>then\<close> callback has not run yet.
\<close>

datatype ctx_state = Suspended | Running | Closed

datatype AudioBufferSourceNode = SourceNode

record session =
  sessionExplanation :: string
  isLoadingExplanation :: bool
  isStreamingExplanation :: bool
  explanationError :: "message option"
  ttsError :: "message option"
  studyHistory :: "QuizResult list"
  quizFinished :: bool
  lastResult :: "QuizResult option"
  selectedVoice :: TTSVoice
  isSpeaking :: bool
  isLoadingTTS :: bool
  audioContextRef :: "ctx_state option"
  audioSourceRef :: "AudioBufferSourceNode option"
  pendingCloses :: nat
  conversation :: "ConversationMessage list"
  userQuestion :: string
  isAnswering :: bool
  qnaError :: "message option"

text \<open>The initial values of the cells; the history comes from local storage.\<close>

definition StudySession_init :: "QuizResult list \<Rightarrow> session" where
  "StudySession_init history =
     \<lparr>sessionExplanation = [],
      isLoadingExplanation = True,
      isStreamingExplanation = False,
      explanationError = None,
      ttsError = None,
      studyHistory = history,
      quizFinished = False,
      lastResult = None,
      selectedVoice = Kore,
      isSpeaking = False,
      isLoadingTTS = False,
      audioContextRef = None,
      audioSourceRef = None,
      pendingCloses = 0,
      conversation = [],
      userQuestion = [],
      isAnswering = False,
      qnaError = None\<rparr>"

text \<open>\<^verbatim>\<open>err instanceof Error ? err.message : '...'\<close>.\<close>

definition errorMessage :: "thrown \<Rightarrow> message \<Rightarrow> message" where
  "errorMessage err dflt = (case err of Error m \<Rightarrow> m | NonError \<Rightarrow> dflt)"

subsection \<open>Audio\<close>

text \<open>
  \<^verbatim>\<open>stopAllAudio\<close>: a held source loses its \<^verbatim>\<open>onended\<close> handler, is stopped (an
  exception of \<^verbatim>\<open>stop\<close> is caught and logged) and is dropped at once. A held
  context that is not closed is asked to close; the reference to it is cleared
  only in the \<^verbatim>\<open>then\<close> callback of that request, \<open>closeResolved\<close>, which
  clears whatever the reference holds by then.
\<close>

definition stopAllAudio :: "session \<Rightarrow> session" where
  "stopAllAudio s =
     (let s1 = (if audioSourceRef s \<noteq> None then s\<lparr>audioSourceRef := None\<rparr> else s);
          s2 = (case audioContextRef s1 of
                  None \<Rightarrow> s1
                | Some st \<Rightarrow> if st \<noteq> Closed
                             then s1\<lparr>pendingCloses := Suc (pendingCloses s1)\<rparr> else s1)
      in s2\<lparr>isSpeaking := False, isLoadingTTS := False\<rparr>)"

definition closeResolved :: "session \<Rightarrow> session" where
  "closeResolved s =
     (if pendingCloses s = 0 then s
      else s\<lparr>audioContextRef := None, pendingCloses := pendingCloses s - 1\<rparr>)"

text \<open>
  \<^verbatim>\<open>handleToggleSpeak\<close> up to its first \<^verbatim>\<open>await\<close>: the next state, and the
  arguments of the call of \<^verbatim>\<open>generateSpeech\<close> it is now waiting for, if any.
\<close>

definition handleToggleSpeak :: "session \<Rightarrow> session \<times> (string \<times> TTSVoice) option" where
  "handleToggleSpeak s =
     (if isSpeaking s \<or> isLoadingTTS s then (stopAllAudio s, None)
      else if sessionExplanation s = [] then (s, None)
      else (s\<lparr>isLoadingTTS := True, ttsError := None\<rparr>,
            Some (sessionExplanation s, selectedVoice s)))"

text \<open>
  The rest of \<^verbatim>\<open>handleToggleSpeak\<close>, which runs when \<^verbatim>\<open>generateSpeech\<close> settles,
  whatever happened to the session meanwhile: nothing is tested after the
  \<^verbatim>\<open>await\<close>. Either the call was rejected (\<open>SpeechRejected\<close>); or it delivered
  audio, a context was created and stored, and decoding the payload or building
  the source threw (\<open>SpeechUndecodable\<close>); or the source was built, stored and
  started (\<open>SpeechStarted\<close>).
\<close>

datatype speech_event =
    SpeechRejected thrown
  | SpeechUndecodable thrown
  | SpeechStarted

definition speechSettled :: "session \<Rightarrow> speech_event \<Rightarrow> session" where
  "speechSettled s ev =
     (case ev of
        SpeechRejected err \<Rightarrow>
          stopAllAudio (s\<lparr>ttsError := Some (errorMessage err MsgSpeechFailed)\<rparr>)
      | SpeechUndecodable err \<Rightarrow>
          stopAllAudio (s\<lparr>audioContextRef := Some Running,
                           ttsError := Some (errorMessage err MsgSpeechFailed)\<rparr>)
      | SpeechStarted \<Rightarrow>
          s\<lparr>audioContextRef := Some Running,
            audioSourceRef := Some SourceNode,
            isLoadingTTS := False,
            isSpeaking := True\<rparr>)"

text \<open>The \<^verbatim>\<open>onended\<close> handler of the held source: playback came to its end.\<close>

definition sourceEnded :: "session \<Rightarrow> session" where
  "sourceEnded s = (if audioSourceRef s = None then s else stopAllAudio s)"

subsection \<open>The explanation stream\<close>

text \<open>
  One run of the effect that fetches the explanation has two variables of its
  own, the flag \<^verbatim>\<open>isCancelled\<close> and the text accumulated so far, and is either
  waiting for \<^verbatim>\<open>getExplanationStream\<close>, iterating over the stream, or over.
\<close>

datatype phase = Awaiting | Streaming | Over

record fetch =
  isCancelled :: bool
  currentText :: string
  phase :: phase

datatype stream_event =
    StreamReady
  | Chunk "string option"
  | StreamEnd
  | StreamFailed thrown

definition fetchExplanation :: "session \<Rightarrow> fetch \<times> session" where
  "fetchExplanation s =
     (\<lparr>isCancelled = False, currentText = [], phase = Awaiting\<rparr>,
      s\<lparr>isLoadingExplanation := True,
        isStreamingExplanation := True,
        sessionExplanation := [],
        explanationError := None\<rparr>)"

text \<open>The \<^verbatim>\<open>catch\<close> and \<^verbatim>\<open>finally\<close> blocks of \<^verbatim>\<open>fetchExplanation\<close>.\<close>

definition fetchFailed :: "fetch \<Rightarrow> session \<Rightarrow> thrown \<Rightarrow> fetch \<times> session" where
  "fetchFailed f s err =
     (f\<lparr>phase := Over\<rparr>,
      if isCancelled f then s
      else s\<lparr>explanationError := Some (errorMessage err MsgExplanationFailed),
             isLoadingExplanation := False,
             isStreamingExplanation := False\<rparr>)"

definition fetchFinally :: "fetch \<Rightarrow> session \<Rightarrow> fetch \<times> session" where
  "fetchFinally f s =
     (f\<lparr>phase := Over\<rparr>,
      if isCancelled f then s else s\<lparr>isStreamingExplanation := False\<rparr>)"

text \<open>
  What one event of the stream does to the run and to the session. An event that
  does not fit the phase cannot happen and changes nothing.
\<close>

definition explanationStep :: "fetch \<times> session \<Rightarrow> stream_event \<Rightarrow> fetch \<times> session" where
  "explanationStep fs ev =
     (case fs of (f, s) \<Rightarrow>
       (case phase f of
          Over \<Rightarrow> (f, s)
        | Awaiting \<Rightarrow>
            (case ev of
               StreamReady \<Rightarrow>
                 if isCancelled f then fetchFinally f s
                 else (f\<lparr>currentText := [], phase := Streaming\<rparr>,
                       s\<lparr>isLoadingExplanation := False\<rparr>)
             | StreamFailed err \<Rightarrow> fetchFailed f s err
             | _ \<Rightarrow> (f, s))
        | Streaming \<Rightarrow>
            (case ev of
               Chunk chunkText \<Rightarrow>
                 if isCancelled f then fetchFinally f s
                 else (f\<lparr>currentText := currentText f @ appended chunkText\<rparr>,
                       s\<lparr>sessionExplanation := currentText f @ appended chunkText\<rparr>)
             | StreamEnd \<Rightarrow> fetchFinally f s
             | StreamFailed err \<Rightarrow> fetchFailed f s err
             | StreamReady \<Rightarrow> (f, s))))"

text \<open>
  The cleanup of the effect, which React runs when \<^verbatim>\<open>standard.description\<close>
  changes and when the component unmounts.
\<close>

definition effectCleanup :: "fetch \<times> session \<Rightarrow> fetch \<times> session" where
  "effectCleanup fs = (case fs of (f, s) \<Rightarrow> (f\<lparr>isCancelled := True\<rparr>, stopAllAudio s))"

text \<open>What \<^verbatim>\<open>getExplanationStream\<close> hands over, as the events of one run.\<close>

definition streamEvents :: "message + fragment_stream \<Rightarrow> stream_event list" where
  "streamEvents r =
     (case r of
        Inl m \<Rightarrow> [StreamFailed (Error m)]
      | Inr st \<Rightarrow>
          StreamReady # map Chunk (chunks st) @
          [case ending st of StreamDone \<Rightarrow> StreamEnd | StreamThrew err \<Rightarrow> StreamFailed err])"

text \<open>A run of the effect fed with the events of its stream, in order.\<close>

definition runExplanation :: "fetch \<times> session \<Rightarrow> stream_event list \<Rightarrow> fetch \<times> session" where
  "runExplanation fs evs = foldl explanationStep fs evs"

text \<open>
  What the \<^verbatim>\<open>article\<close> element of the render shows: a spinner while the
  explanation is loading; else the error, if its message is not empty; else the
  explanation as markdown, followed by a cursor while it is streaming.
\<close>

datatype article = Spinner | ErrorText message | Markdown string bool

definition explanationArticle :: "session \<Rightarrow> article" where
  "explanationArticle s =
     (if isLoadingExplanation s then Spinner
      else case explanationError s of
             None \<Rightarrow> Markdown (sessionExplanation s) (isStreamingExplanation s)
           | Some m \<Rightarrow>
               if m = Raw [] then Markdown (sessionExplanation s) (isStreamingExplanation s)
               else ErrorText m)"

subsection \<open>The chat\<close>

text \<open>
  \<^verbatim>\<open>userQuestion.trim()\<close> is empty exactly when the question consists of white
  space and line terminators. A character of a string here is a code unit below
  256; the white space among these is tab, line feed, vertical tab, form feed,
  carriage return, space and the no-break space. The white space of higher code
  units cannot be written in such a string.
\<close>

definition isWhiteSpace :: "char \<Rightarrow> bool" where
  "isWhiteSpace c =
     (c \<in> set [CHR 0x09, CHR 0x0A, CHR 0x0B, CHR 0x0C, CHR 0x0D, CHR '' '', CHR 0xA0])"

definition isBlank :: "string \<Rightarrow> bool" where
  "isBlank t = list_all isWhiteSpace t"

text \<open>
  \<^verbatim>\<open>handleAskQuestion\<close> up to its \<^verbatim>\<open>await\<close>: \<open>None\<close> when the guard returns at
  once, else the state with the question and an empty answer appended.
\<close>

definition handleAskQuestion :: "session \<Rightarrow> session option" where
  "handleAskQuestion s =
     (if isBlank (userQuestion s) \<or> isAnswering s then None
      else
        let newQuestion = \<lparr>role = User, msg_text = userQuestion s\<rparr> in
        Some (s\<lparr>isAnswering := True,
                qnaError := None,
                conversation := conversation s @ [newQuestion, \<lparr>role = Model, msg_text = []\<rparr>],
                userQuestion := []\<rparr>))"

text \<open>
  The updater \<^verbatim>\<open>handleAskQuestion\<close> queues for each chunk. It reads
  \<^verbatim>\<open>lastMessage.role\<close>, which throws on an empty transcript. The message object
  it extends is the one the copied array shares with the previous state; no other
  message is touched.
\<close>

definition appendChunk ::
  "ConversationMessage list \<Rightarrow> string option \<Rightarrow> js_error + ConversationMessage list" where
  "appendChunk prev chunkText =
     (if prev = [] then Inl TypeError
      else if role (last prev) = Model
      then Inr (butlast prev @
                [(last prev)\<lparr>msg_text := msg_text (last prev) @ appended chunkText\<rparr>])
      else Inr prev)"

text \<open>
  The events of a chat turn after the \<^verbatim>\<open>await\<close>. A rejection of
  \<^verbatim>\<open>getFollowUpAnswerStream\<close> and an exception of the iteration reach the same
  \<^verbatim>\<open>catch\<close>, so both are \<open>ChatFailed\<close>. No flag is consulted anywhere.
  \<^verbatim>\<open>prev.slice(0, -2)\<close> drops the last two messages, and all of them when there
  are fewer.
\<close>

datatype chat_event = ChatChunk "string option" | ChatEnd | ChatFailed thrown

definition chatStep :: "session \<Rightarrow> chat_event \<Rightarrow> js_error + session" where
  "chatStep s ev =
     (case ev of
        ChatChunk chunkText \<Rightarrow>
          (case appendChunk (conversation s) chunkText of
             Inl e \<Rightarrow> Inl e
           | Inr c \<Rightarrow> Inr (s\<lparr>conversation := c\<rparr>))
      | ChatEnd \<Rightarrow> Inr (s\<lparr>isAnswering := False\<rparr>)
      | ChatFailed err \<Rightarrow>
          Inr (s\<lparr>qnaError := Some (errorMessage err MsgAnsweringFailed),
                 conversation := take (length (conversation s) - 2) (conversation s),
                 isAnswering := False\<rparr>))"

fun runChat :: "session \<Rightarrow> chat_event list \<Rightarrow> js_error + session" where
  "runChat s [] = Inr s"
| "runChat s (ev # evs) =
     (case chatStep s ev of Inl e \<Rightarrow> Inl e | Inr s' \<Rightarrow> runChat s' evs)"

subsection \<open>Setter calls and unmounting\<close>

text \<open>
  The continuations of the two streams change the session only by calling
  setters. \<open>explanationCalls\<close> lists the calls \<^verbatim>\<open>fetchExplanation\<close> makes for an
  event of its stream, in the order of the source; each is made only after
  \<^verbatim>\<open>isCancelled\<close> was tested. \<open>chatCalls\<close> lists the calls the continuation of
  \<^verbatim>\<open>handleAskQuestion\<close> makes for an event of its stream; they depend on the event
  alone. \<^verbatim>\<open>setConversation\<close> is called with one of two updater functions, the
  one that extends the last message and the one that drops the last two.
\<close>

datatype conversation_updater = AppendToLast "string option" | DropLastTwo

datatype setter =
    SetExplanation string
  | SetIsLoadingExplanation bool
  | SetIsStreamingExplanation bool
  | SetExplanationError "message option"
  | SetConversation conversation_updater
  | SetQnaError "message option"
  | SetIsAnswering bool

definition explanationCalls :: "fetch \<Rightarrow> stream_event \<Rightarrow> setter list" where
  "explanationCalls f ev =
     (if isCancelled f then []
      else
        case phase f of
          Over \<Rightarrow> []
        | Awaiting \<Rightarrow>
            (case ev of
               StreamReady \<Rightarrow> [SetIsLoadingExplanation False]
             | StreamFailed err \<Rightarrow>
                 [SetExplanationError (Some (errorMessage err MsgExplanationFailed)),
                  SetIsLoadingExplanation False,
                  SetIsStreamingExplanation False]
             | _ \<Rightarrow> [])
        | Streaming \<Rightarrow>
            (case ev of
               Chunk chunkText \<Rightarrow> [SetExplanation (currentText f @ appended chunkText)]
             | StreamEnd \<Rightarrow> [SetIsStreamingExplanation False]
             | StreamFailed err \<Rightarrow>
                 [SetExplanationError (Some (errorMessage err MsgExplanationFailed)),
                  SetIsLoadingExplanation False,
                  SetIsStreamingExplanation False]
             | StreamReady \<Rightarrow> []))"

definition chatCalls :: "chat_event \<Rightarrow> setter list" where
  "chatCalls ev =
     (case ev of
        ChatChunk chunkText \<Rightarrow> [SetConversation (AppendToLast chunkText)]
      | ChatEnd \<Rightarrow> [SetIsAnswering False]
      | ChatFailed err \<Rightarrow>
          [SetQnaError (Some (errorMessage err MsgAnsweringFailed)),
           SetConversation DropLastTwo,
           SetIsAnswering False])"

text \<open>What a setter call does to the cells when React applies it.\<close>

definition applySetter :: "session \<Rightarrow> setter \<Rightarrow> js_error + session" where
  "applySetter s call =
     (case call of
        SetExplanation t \<Rightarrow> Inr (s\<lparr>sessionExplanation := t\<rparr>)
      | SetIsLoadingExplanation b \<Rightarrow> Inr (s\<lparr>isLoadingExplanation := b\<rparr>)
      | SetIsStreamingExplanation b \<Rightarrow> Inr (s\<lparr>isStreamingExplanation := b\<rparr>)
      | SetExplanationError m \<Rightarrow> Inr (s\<lparr>explanationError := m\<rparr>)
      | SetConversation updater \<Rightarrow>
          (case updater of
             AppendToLast chunkText \<Rightarrow>
               (case appendChunk (conversation s) chunkText of
                  Inl e \<Rightarrow> Inl e
                | Inr c \<Rightarrow> Inr (s\<lparr>conversation := c\<rparr>))
           | DropLastTwo \<Rightarrow>
               Inr (s\<lparr>conversation := take (length (conversation s) - 2) (conversation s)\<rparr>))
      | SetQnaError m \<Rightarrow> Inr (s\<lparr>qnaError := m\<rparr>)
      | SetIsAnswering b \<Rightarrow> Inr (s\<lparr>isAnswering := b\<rparr>))"

fun applySetters :: "session \<Rightarrow> setter list \<Rightarrow> js_error + session" where
  "applySetters s [] = Inr s"
| "applySetters s (call # rest) =
     (case applySetter s call of Inl e \<Rightarrow> Inl e | Inr s' \<Rightarrow> applySetters s' rest)"

text \<open>
  A component is mounted or not; it has the run of its effect, its cells, and,
  for the record, the setter calls made on it so far. React applies the calls
  made on a mounted component and discards those made on an unmounted one.
  Unmounting runs the cleanup of the effect. The variables of a run are not
  cells: the run goes on whether the component is mounted or not.
\<close>

record component =
  mounted :: bool
  run :: fetch
  cells :: session
  issued :: "setter list"

definition dispatch :: "component \<Rightarrow> setter list \<Rightarrow> js_error + component" where
  "dispatch c setterCalls =
     (if mounted c
      then (case applySetters (cells c) setterCalls of
              Inl e \<Rightarrow> Inl e
            | Inr s \<Rightarrow> Inr (c\<lparr>cells := s, issued := issued c @ setterCalls\<rparr>))
      else Inr (c\<lparr>issued := issued c @ setterCalls\<rparr>))"

definition unmount :: "component \<Rightarrow> component" where
  "unmount c =
     (case effectCleanup (run c, cells c) of
        (f, s) \<Rightarrow> c\<lparr>mounted := False, run := f, cells := s\<rparr>)"

definition streamDelivers :: "component \<Rightarrow> stream_event \<Rightarrow> js_error + component" where
  "streamDelivers c ev =
     dispatch (c\<lparr>run := fst (explanationStep (run c, cells c) ev)\<rparr>)
       (explanationCalls (run c) ev)"

definition chatDelivers :: "component \<Rightarrow> chat_event \<Rightarrow> js_error + component" where
  "chatDelivers c ev = dispatch c (chatCalls ev)"

subsection \<open>The end of the quiz\<close>

text \<open>
  \<^verbatim>\<open>handleQuizSubmit\<close>. The object literal evaluates \<^verbatim>\<open>new Date()\<close> twice, for
  \<^verbatim>\<open>id\<close> and then for \<^verbatim>\<open>date\<close>: \<open>now1\<close> and \<open>now2\<close> are what the clock shows at
  the two reads. The cell \<^verbatim>\<open>studyHistory\<close> belongs to the hook
  \<^verbatim>\<open>useLocalStorage\<close>, whose file is not among the sources: its setter is taken
  to store the list it is given, as the setter of a \<^verbatim>\<open>useState\<close> cell does.
\<close>

definition handleQuizSubmit ::
  "AchievementStandard \<Rightarrow> string \<Rightarrow> int \<Rightarrow> int \<Rightarrow> session \<Rightarrow> jsnumber \<Rightarrow> int \<Rightarrow> int \<Rightarrow> session" where
  "handleQuizSubmit standard subjectName now1 now2 s score' correctAnswers' totalQuestions' =
     (let newResult =
            \<lparr>result_id = toISOString now1,
             date = toISOString now2,
             standardId = std_id standard,
             standardDescription = description standard,
             subject = subjectName,
             score = score',
             totalQuestions = totalQuestions',
             correctAnswers = correctAnswers'\<rparr>
      in s\<lparr>studyHistory := studyHistory s @ [newResult],
           lastResult := Some newResult,
           quizFinished := True\<rparr>)"

section \<open>Vocabulary of the properties\<close>

subsection \<open>Rounding\<close>

text \<open>
  Half a unit in the last place of a double, relative to its value, and half the
  smallest unit in the last place there is.
\<close>

definition u53 :: rat where
  "u53 = 1 / 2 ^ 53"

definition eta :: rat where
  "eta = 1 / 2 ^ 1075"

subsection \<open>Grading, as the specification words it\<close>

text \<open>
  The specification says when an index counts as correct: the question is
  short-answer and its self-assessment is \<^verbatim>\<open>true\<close>, or the question is
  multiple-choice or OX and the recorded answer is the very string of the
  question's answer. The count of the specification is the number of such indices.
\<close>

definition spec_isCorrect :: "QuizQuestion list \<Rightarrow> string slot list \<Rightarrow> bool slot list \<Rightarrow> nat \<Rightarrow> bool" where
  "spec_isCorrect qs answers selfAssessed i =
     ((questionType (qs ! i) = ShortAnswer \<and> js_get selfAssessed i = Val True) \<or>
      ((questionType (qs ! i) = MultipleChoice \<or> questionType (qs ! i) = Ox) \<and>
       js_get answers i = Val (answer (qs ! i))))"

definition spec_correctCount :: "QuizQuestion list \<Rightarrow> string slot list \<Rightarrow> bool slot list \<Rightarrow> int" where
  "spec_correctCount qs answers selfAssessed =
     int (length (filter (spec_isCorrect qs answers selfAssessed) [0..<length qs]))"

text \<open>What \<^verbatim>\<open>onSubmit\<close> receives when the arrays of state \<open>s\<close> are graded so.\<close>

definition graded :: "QuizQuestion list \<Rightarrow> quiz_state \<Rightarrow> submission" where
  "graded qs s =
     Submission
       (scorePercentage (spec_correctCount qs (userAnswers s) (selfAssessedCorrectness s)) (length qs))
       (spec_correctCount qs (userAnswers s) (selfAssessedCorrectness s))
       (int (length qs))"

text \<open>
  The invariant of a mounted quiz: the index is within the questions, both
  arrays have the length of the question list, and no answer slot is a hole.
\<close>

definition quiz_inv :: "QuizQuestion list \<Rightarrow> quiz_state \<Rightarrow> bool" where
  "quiz_inv qs s =
     (currentQuestionIndex s < length qs \<and>
      length (userAnswers s) = length qs \<and>
      Hole \<notin> set (userAnswers s) \<and>
      length (selfAssessedCorrectness s) = length qs)"

subsection \<open>A sitting\<close>

text \<open>
  Three questions of the three kinds, and a user who answers B, types Lyon and
  marks it wrong, and answers O.
\<close>

definition example_questions :: "QuizQuestion list" where
  "example_questions =
     [\<lparr>question = ''Q1'', questionType = MultipleChoice,
       options = Some [''A'', ''B'', ''C'', ''D'', ''E''], answer = ''B'', explanation = ''E1''\<rparr>,
      \<lparr>question = ''Q2'', questionType = ShortAnswer,
       options = None, answer = ''Paris'', explanation = ''E2''\<rparr>,
      \<lparr>question = ''Q3'', questionType = Ox,
       options = Some [''O'', ''X''], answer = ''O'', explanation = ''E3''\<rparr>]"

definition example_sitting :: "event list" where
  "example_sitting =
     [ClickOption ''B'', ClickCheck, ClickNext,
      TypeShortAnswer ''Lyon'', ClickCheck, ClickSelfAssess False, ClickNext,
      ClickOption ''O'', ClickCheck, ClickNext]"

definition example_final :: quiz_state where
  "example_final =
     \<lparr>currentQuestionIndex = 2,
      userAnswers = [Val ''B'', Val ''Lyon'', Val ''O''],
      isAnswerChecked = True,
      showResults = True,
      tempShortAnswer = [],
      selfAssessedCorrectness = [Null, Val False, Null]\<rparr>"

definition example_standard :: AchievementStandard where
  "example_standard = \<lparr>std_id = ''S-01'', description = ''capitals''\<rparr>"

subsection \<open>Services and gateways to try the program on\<close>

text \<open>
  A service that answers every request with a given text and no audio, one that
  throws a given value at every request, a module that was never initialised, and
  one initialised with some key.
\<close>

definition replying :: "json_text \<Rightarrow> backend" where
  "replying t =
     \<lparr>generateContent = (\<lambda>c. Inr \<lparr>response_text = t, inlineData = None\<rparr>),
      generateContentStream = (\<lambda>c. Inr \<lparr>chunks = [], ending = StreamDone\<rparr>)\<rparr>"

definition throwing :: "thrown \<Rightarrow> backend" where
  "throwing err =
     \<lparr>generateContent = (\<lambda>c. Inl err), generateContentStream = (\<lambda>c. Inl err)\<rparr>"

definition fresh_gateway :: gateway where
  "fresh_gateway = \<lparr>ai = None, fileProtocol = False, console = [], calls = []\<rparr>"

definition ready_gateway :: gateway where
  "ready_gateway = \<lparr>ai = Some (GoogleGenAI ''key-1''), fileProtocol = False, console = [], calls = []\<rparr>"

text \<open>The request \<^verbatim>\<open>generateQuestions\<close> sends, and the total it computes.\<close>

definition totalRequested :: "QuestionRequest list \<Rightarrow> int" where
  "totalRequested requests = foldl (\<lambda>sum req. sum + count req) 0 requests"

definition questionsCall :: "GoogleGenAI \<Rightarrow> string \<Rightarrow> QuestionRequest list \<Rightarrow> call" where
  "questionsCall aiInstance topicDescription requests =
     Call aiInstance ''gemini-2.5-flash''
       (QuestionsPrompt (totalRequested requests)
          (filter (\<lambda>req. count req > 0) requests) topicDescription)"

text \<open>
  Three failures the service reports to a request, with the message of the
  \<^verbatim>\<open>Error\<close> the SDK throws for each: a key the service does not know, a key that
  has expired, and an entity that does not exist. The first two are failures of
  authentication; the third is not.
\<close>

datatype service_failure = KeyNotValid | KeyExpired | EntityNotFound

definition reported :: "service_failure \<Rightarrow> thrown" where
  "reported failure =
     (case failure of
        KeyNotValid \<Rightarrow> Error (Raw ''API key not valid. Please pass a valid API key.'')
      | KeyExpired \<Rightarrow> Error (Raw ''API key expired. Please renew the API key.'')
      | EntityNotFound \<Rightarrow> Error (Raw ''Requested entity was not found.''))"

definition isAuthenticationFailure :: "service_failure \<Rightarrow> bool" where
  "isAuthenticationFailure failure =
     (case failure of KeyNotValid \<Rightarrow> True | KeyExpired \<Rightarrow> True | EntityNotFound \<Rightarrow> False)"

text \<open>
  Requests for no question at all and for one question; a parsed response that
  lacks required fields, and one that matches the schema.
\<close>

definition zero_requests :: "QuestionRequest list" where
  "zero_requests =
     [\<lparr>type = MultipleChoice, count = 0\<rparr>, \<lparr>type = ShortAnswer, count = 0\<rparr>,
      \<lparr>type = Ox, count = 0\<rparr>]"

definition one_request :: "QuestionRequest list" where
  "one_request = [\<lparr>type = MultipleChoice, count = 1\<rparr>]"

definition incomplete_item :: json where
  "incomplete_item = JArray [JObject [(''question'', JString ''Q'')]]"

definition conforming_list :: json where
  "conforming_list =
     JArray [JObject [(''question'', JString ''Q''), (''questionType'', JString ''ox''),
                      (''options'', JArray [JString ''O'', JString ''X'']),
                      (''answer'', JString ''O''), (''explanation'', JString ''E'')]]"

subsection \<open>A session\<close>

text \<open>
  A run of the effect is accumulating when it is iterating, not cancelled, and the
  explanation on display is the text it has accumulated.
\<close>

definition accumulating :: "fetch \<times> session \<Rightarrow> bool" where
  "accumulating fs =
     (case fs of (f, s) \<Rightarrow>
        phase f = Streaming \<and> \<not> isCancelled f \<and> sessionExplanation s = currentText f)"

text \<open>
  A session whose explanation has arrived, with one exchange in the transcript and
  a question typed; the finished run of its effect; the same session just after
  the question was asked; the mounted component in that state; and the first
  session after the speech control was used twice in a row.
\<close>

definition example_session :: session where
  "example_session =
     (StudySession_init [])
       \<lparr>sessionExplanation := ''A capital is a seat of government.'',
        isLoadingExplanation := False,
        conversation := [\<lparr>role = User, msg_text = ''hello''\<rparr>, \<lparr>role = Model, msg_text = ''hi''\<rparr>],
        userQuestion := ''why?''\<rparr>"

definition example_fetch :: fetch where
  "example_fetch =
     \<lparr>isCancelled = False, currentText = ''A capital is a seat of government.'', phase = Over\<rparr>"

definition example_asked :: session where
  "example_asked =
     example_session
       \<lparr>isAnswering := True,
        conversation := [\<lparr>role = User, msg_text = ''hello''\<rparr>, \<lparr>role = Model, msg_text = ''hi''\<rparr>,
                         \<lparr>role = User, msg_text = ''why?''\<rparr>, \<lparr>role = Model, msg_text = []\<rparr>],
        userQuestion := []\<rparr>"

definition example_component :: component where
  "example_component =
     \<lparr>mounted = True, run = example_fetch, cells = example_asked, issued = []\<rparr>"

definition toggled_twice :: session where
  "toggled_twice = fst (handleToggleSpeak (fst (handleToggleSpeak example_session)))"

section \<open>Rounding\<close>

lemma pow2_powi: "pow2 k = 2 powi k"
  by (simp add: pow2_def power_int_def inverse_eq_divide power_one_over)

lemma pow2_pos: "0 < pow2 k"
  by (simp add: pow2_powi)

lemma pow2_add: "pow2 (a + b) = pow2 a * pow2 b"
  by (simp add: pow2_powi power_int_add)

lemma pow2_diff: "pow2 (a - b) = pow2 a / pow2 b"
  by (simp add: pow2_powi power_int_diff)

lemma pow2_nat: "pow2 (int n) = 2 ^ n"
  by (simp add: pow2_def)

lemma pow2_neg_nat: "pow2 (- int n) = 1 / 2 ^ n"
  by (simp add: pow2_powi power_int_minus inverse_eq_divide)

lemma pow2_mono: "a \<le> b \<Longrightarrow> pow2 a \<le> pow2 b"
  by (simp add: pow2_powi power_int_increasing)

lemma exponent_bounds:
  assumes "0 < x"
  shows "pow2 (exponent x) \<le> x \<and> x < pow2 (exponent x + 1)"
proof -
  obtain a b where q: "quotient_of x = (a, b)" by (cases "quotient_of x")
  have b: "0 < b" using q by (rule quotient_of_denom_pos)
  have x: "x = of_int a / of_int b" using q by (rule quotient_of_div)
  have a: "0 < a" using assms b x by (simp add: zero_less_divide_iff)
  let ?la = "bitlen a" and ?lb = "bitlen b"
  from bitlen_bounds [OF a] have a1: "2 ^ nat (?la - 1) \<le> a" and a2: "a < 2 ^ nat ?la" by simp_all
  from bitlen_bounds [OF b] have b1: "2 ^ nat (?lb - 1) \<le> b" and b2: "b < 2 ^ nat ?lb" by simp_all
  have la: "1 \<le> ?la" using a bitlen_eq_zero_iff [of a] bitlen_nonneg [of a] by linarith
  have lb: "1 \<le> ?lb" using b bitlen_eq_zero_iff [of b] bitlen_nonneg [of b] by linarith
  have pa1: "pow2 (?la - 1) \<le> of_int a"
  proof -
    have "(of_int (2 ^ nat (?la - 1)) :: rat) \<le> of_int a" using a1 by (simp only: of_int_le_iff)
    moreover have "pow2 (?la - 1) = 2 ^ nat (?la - 1)" using la by (simp add: pow2_def)
    ultimately show ?thesis by simp
  qed
  have pa2: "of_int a < pow2 ?la"
  proof -
    have "(of_int a :: rat) < of_int (2 ^ nat ?la)" using a2 by (simp only: of_int_less_iff)
    moreover have "pow2 ?la = 2 ^ nat ?la" using la by (simp add: pow2_def)
    ultimately show ?thesis by simp
  qed
  have pb1: "pow2 (?lb - 1) \<le> of_int b"
  proof -
    have "(of_int (2 ^ nat (?lb - 1)) :: rat) \<le> of_int b" using b1 by (simp only: of_int_le_iff)
    moreover have "pow2 (?lb - 1) = 2 ^ nat (?lb - 1)" using lb by (simp add: pow2_def)
    ultimately show ?thesis by simp
  qed
  have pb2: "of_int b < pow2 ?lb"
  proof -
    have "(of_int b :: rat) < of_int (2 ^ nat ?lb)" using b2 by (simp only: of_int_less_iff)
    moreover have "pow2 ?lb = 2 ^ nat ?lb" using lb by (simp add: pow2_def)
    ultimately show ?thesis by simp
  qed
  have bq: "(0::rat) < of_int b" using b by simp
  have aq: "(0::rat) < of_int a" using a by simp
  have up: "x < pow2 (?la - ?lb + 1)"
  proof -
    have "x * of_int b = of_int a" using x bq by simp
    also have "\<dots> < pow2 ?la" by (rule pa2)
    also have "\<dots> = pow2 (?la - ?lb + 1) * pow2 (?lb - 1)"
      by (simp add: pow2_add [symmetric])
    also have "\<dots> \<le> pow2 (?la - ?lb + 1) * of_int b"
      using pb1 pow2_pos [of "?la - ?lb + 1"] by (simp add: mult_left_mono)
    finally show ?thesis using bq by simp
  qed
  have lo: "pow2 (?la - ?lb - 1) < x"
  proof -
    have "pow2 (?la - ?lb - 1) * of_int b < pow2 (?la - ?lb - 1) * pow2 ?lb"
      using pb2 pow2_pos [of "?la - ?lb - 1"] by (simp add: mult_strict_left_mono)
    also have "\<dots> = pow2 (?la - 1)"
      by (simp add: pow2_add [symmetric])
    also have "\<dots> \<le> of_int a" by (rule pa1)
    also have "\<dots> = x * of_int b" using x bq by simp
    finally show ?thesis using bq by simp
  qed
  show ?thesis
  proof (cases "pow2 (?la - ?lb) \<le> x")
    case True
    then have "exponent x = ?la - ?lb" by (simp add: exponent_def q Let_def)
    with True up show ?thesis by simp
  next
    case False
    then have "exponent x = ?la - ?lb - 1" by (simp add: exponent_def q Let_def)
    with False lo show ?thesis by simp
  qed
qed

lemma roundHalfEven_error: "\<bar>of_int (roundHalfEven y) - y\<bar> \<le> 1 / 2"
proof -
  have f: "of_int \<lfloor>y\<rfloor> \<le> y" "y < of_int \<lfloor>y\<rfloor> + 1" by linarith+
  show ?thesis
    unfolding roundHalfEven_def Let_def using f by (auto simp: abs_le_iff; linarith)
qed

lemma roundHalfEven_nonneg: "0 \<le> y \<Longrightarrow> 0 \<le> roundHalfEven y"
  unfolding roundHalfEven_def Let_def by (auto; linarith)

lemma nearestDouble_error:
  assumes "0 \<le> x"
  shows "0 \<le> nearestDouble x \<and> \<bar>nearestDouble x - x\<bar> \<le> x * u53 + eta"
proof (cases "x = 0")
  case True
  then show ?thesis by (simp add: nearestDouble_def eta_def)
next
  case False
  with assms have pos: "0 < x" by simp
  define k where "k = max (exponent x - 52) (- 1074)"
  define p where "p = pow2 k"
  have p: "0 < p" by (simp add: p_def pow2_pos)
  have nd: "nearestDouble x = of_int (roundHalfEven (x / p)) * p"
    using pos by (simp add: nearestDouble_def k_def p_def Let_def)
  have nn: "0 \<le> nearestDouble x"
    using roundHalfEven_nonneg [of "x / p"] pos p by (simp add: nd)
  have "\<bar>nearestDouble x - x\<bar> = \<bar>of_int (roundHalfEven (x / p)) - x / p\<bar> * p"
  proof -
    have "nearestDouble x - x = (of_int (roundHalfEven (x / p)) - x / p) * p"
      using p by (simp add: nd algebra_simps)
    then show ?thesis using p by (simp add: abs_mult)
  qed
  also have "\<dots> \<le> (1 / 2) * p"
    using roundHalfEven_error [of "x / p"] p by (simp add: mult_right_mono)
  finally have half: "\<bar>nearestDouble x - x\<bar> \<le> p / 2" by simp
  have "p / 2 \<le> x * u53 + eta"
  proof (cases "- 1074 \<le> exponent x - 52")
    case True
    then have "k = exponent x - 52" by (simp add: k_def)
    then have "p = pow2 (exponent x) / 2 ^ 52"
      by (simp add: p_def pow2_diff pow2_nat [of 52, simplified])
    then have "p / 2 = pow2 (exponent x) * u53" by (simp add: u53_def)
    also have "\<dots> \<le> x * u53"
      using exponent_bounds [OF pos] by (simp add: u53_def divide_right_mono)
    finally show ?thesis by (simp add: eta_def)
  next
    case False
    then have "k = - 1074" by (simp add: k_def)
    then have "p = 1 / 2 ^ 1074" using pow2_neg_nat [of 1074] by (simp add: p_def)
    then have "p / 2 = eta" by (simp add: eta_def)
    moreover have "0 \<le> x * u53" using pos by (simp add: u53_def)
    ultimately show ?thesis by simp
  qed
  with half nn show ?thesis by simp
qed

lemma u53_le: "0 < u53" "u53 \<le> 1" "3 * u53 \<le> 1 / 2 ^ 51"
  by (simp_all add: u53_def)

lemma eta_le: "0 < eta" "eta \<le> 1" "201 * eta \<le> 1 / 2 ^ 1067"
  by (simp_all add: eta_def)

lemma toNumber_small:
  assumes "0 \<le> x" and "x \<le> 1000"
  shows "toNumber x = Finite (nearestDouble x)"
proof -
  from nearestDouble_error [OF assms(1)]
  have n: "0 \<le> nearestDouble x" and e: "\<bar>nearestDouble x - x\<bar> \<le> x * u53 + eta" by simp_all
  have "x * u53 \<le> x * 1" using assms(1) u53_le(2) by (rule mult_left_mono [OF _ _, rotated]) 
  then have "nearestDouble x \<le> 2 * x + 1" using e eta_le(2) by (simp add: abs_le_iff)
  then have r: "nearestDouble x \<le> 2001" using assms(2) by simp
  have "exponent \<bar>nearestDouble x\<bar> < 1024" if "nearestDouble x \<noteq> 0"
  proof (rule ccontr)
    assume "\<not> exponent \<bar>nearestDouble x\<bar> < 1024"
    then have "11 \<le> exponent \<bar>nearestDouble x\<bar>" by simp
    then have "pow2 11 \<le> pow2 (exponent \<bar>nearestDouble x\<bar>)" by (rule pow2_mono)
    also have "\<dots> \<le> \<bar>nearestDouble x\<bar>"
      using exponent_bounds [of "\<bar>nearestDouble x\<bar>"] that by simp
    also have "\<dots> \<le> 2001" using n r by simp
    finally show False by (simp add: pow2_def)
  qed
  then show ?thesis by (auto simp: toNumber_def Let_def)
qed

lemma scorePercentage_error:
  assumes "0 \<le> c" and "c \<le> int n" and "0 < n"
  shows "\<exists>x. scorePercentage c n = Finite x \<and> 0 \<le> x \<and>
             \<bar>x - 100 * of_int c / of_nat n\<bar> \<le>
               (100 * of_int c / of_nat n) / 2 ^ 51 + 1 / 2 ^ 1067"
proof -
  define q :: rat where "q = of_int c / of_nat n"
  have q0: "0 \<le> q" using assms by (simp add: q_def)
  have q1: "q \<le> 1" using assms by (simp add: q_def divide_le_eq_1)
  define s where "s = nearestDouble q"
  from nearestDouble_error [OF q0]
  have s0: "0 \<le> s" and se: "\<bar>s - q\<bar> \<le> q * u53 + eta" by (simp_all add: s_def)
  have qu: "q * u53 \<le> q" using q0 u53_le(2) mult_left_mono [of u53 1 q] by simp
  have s2: "s \<le> 2 * q + eta" using se qu by (simp add: abs_le_iff)
  then have s3: "s \<le> 3" using q1 eta_le(2) by simp
  have q1000: "q \<le> 1000" using q1 by simp
  have "js_divide c n = toNumber q"
    using assms(3) by (simp add: js_divide_def q_def)
  also have "\<dots> = Finite s"
    unfolding s_def by (rule toNumber_small [OF q0 q1000])
  finally have d: "js_divide c n = Finite s" .
  define x where "x = nearestDouble (s * 100)"
  have h0: "0 \<le> s * 100" using s0 by simp
  from nearestDouble_error [OF h0]
  have x0: "0 \<le> x" and xe: "\<bar>x - s * 100\<bar> \<le> s * 100 * u53 + eta" by (simp_all add: x_def)
  have h1000: "s * 100 \<le> 1000" using s3 by simp
  have "scorePercentage c n = toNumber (s * 100)"
    by (simp add: scorePercentage_def js_times100_def d)
  also have "\<dots> = Finite x"
    unfolding x_def by (rule toNumber_small [OF h0 h1000])
  finally have sp: "scorePercentage c n = Finite x" .
  have su: "s * 100 * u53 \<le> (2 * q + eta) * 100 * u53"
    using s2 u53_le(1) by (simp add: mult_right_mono)
  have eu: "eta * 100 * u53 \<le> eta * 100"
    using eta_le(1) u53_le(2) mult_left_mono [of u53 1 "eta * 100"] by simp
  have "\<bar>x - 100 * q\<bar> = \<bar>(x - s * 100) + 100 * (s - q)\<bar>"
    by (simp add: algebra_simps)
  also have "\<dots> \<le> \<bar>x - s * 100\<bar> + \<bar>100 * (s - q)\<bar>"
    by (rule abs_triangle_ineq)
  also have "\<dots> = \<bar>x - s * 100\<bar> + 100 * \<bar>s - q\<bar>"
    by (simp only: abs_mult abs_numeral)
  also have "\<dots> \<le> (s * 100 * u53 + eta) + 100 * (q * u53 + eta)"
    using xe se by simp
  also have "\<dots> \<le> ((2 * q + eta) * 100 * u53 + eta) + 100 * (q * u53 + eta)"
    using su by simp
  also have "\<dots> = 100 * q * (3 * u53) + eta * 100 * u53 + 101 * eta"
    by (simp add: algebra_simps)
  also have "\<dots> \<le> 100 * q * (3 * u53) + 201 * eta"
    using eu by simp
  also have "\<dots> \<le> 100 * q * (1 / 2 ^ 51) + 1 / 2 ^ 1067"
  proof -
    have "100 * q * (3 * u53) \<le> 100 * q * (1 / 2 ^ 51)"
      using q0 u53_le(3) by (intro mult_left_mono) simp_all
    with eta_le(3) show ?thesis by linarith
  qed
  finally have "\<bar>x - 100 * q\<bar> \<le> 100 * q / 2 ^ 51 + 1 / 2 ^ 1067" by simp
  with sp x0 show ?thesis by (auto simp: q_def)
qed

section \<open>The quiz runner grades as specified\<close>

lemma reduce_correct_spec:
  "length pre + length xs = length qs \<Longrightarrow> Hole \<notin> set xs \<Longrightarrow>
   reduce_correct qs sa xs (length pre) c =
     Some (c + int (length (filter (spec_isCorrect qs (pre @ xs) sa)
                              [length pre ..< length pre + length xs])))"
proof (induction xs arbitrary: pre c)
  case Nil
  then show ?case by simp
next
  case (Cons a rest)
  have len: "length (pre @ [a]) + length rest = length qs"
    using Cons.prems(1) by simp
  have nh: "Hole \<notin> set rest" and a: "a \<noteq> Hole"
    using Cons.prems(2) by auto
  have lt: "length pre < length qs"
    using Cons.prems(1) by simp
  have IH: "reduce_correct qs sa rest (Suc (length pre)) c' =
     Some (c' + int (length (filter (spec_isCorrect qs (pre @ a # rest) sa)
                              [Suc (length pre) ..< Suc (length pre) + length rest])))" for c'
    using Cons.IH [of "pre @ [a]" c', OF len nh] by simp
  have here: "spec_isCorrect qs (pre @ a # rest) sa (length pre) =
     (if questionType (qs ! length pre) = ShortAnswer
      then js_get sa (length pre) = Val True
      else a = Val (answer (qs ! length pre)))"
    by (cases "questionType (qs ! length pre)")
       (auto simp: spec_isCorrect_def js_get_def)
  have upt: "[length pre ..< length pre + length (a # rest)] =
     length pre # [Suc (length pre) ..< Suc (length pre) + length rest]"
    using upt_conv_Cons [of "length pre" "length pre + length (a # rest)"] by simp
  show ?case
    unfolding upt using a lt by (simp add: IH here Let_def)
qed

lemma reduce_correct_all:
  assumes "length ua = length qs" and "Hole \<notin> set ua"
  shows "reduce_correct qs sa ua 0 0 = Some (spec_correctCount qs ua sa)"
  using reduce_correct_spec [of "[]" ua qs sa 0] assms
  by (simp add: spec_correctCount_def)

lemma spec_correctCount_bounds:
  "0 \<le> spec_correctCount qs ua sa" "spec_correctCount qs ua sa \<le> int (length qs)"
proof -
  show "0 \<le> spec_correctCount qs ua sa"
    by (simp add: spec_correctCount_def)
  have "length (filter (spec_isCorrect qs ua sa) [0..<length qs]) \<le> length [0..<length qs]"
    by (rule length_filter_le)
  then show "spec_correctCount qs ua sa \<le> int (length qs)"
    by (simp add: spec_correctCount_def)
qed

lemma quiz_inv_init: "qs \<noteq> [] \<Longrightarrow> quiz_inv qs (Quiz_init qs)"
  by (simp add: quiz_inv_def Quiz_init_def)

lemma spread_facts:
  "length (spread xs) = length xs" "Hole \<notin> set (spread xs)"
  by (auto simp: spread_def)

lemma js_set_in_range:
  "i < length xs \<Longrightarrow> length (js_set xs i v) = length xs"
  "i < length xs \<Longrightarrow> v \<noteq> Hole \<Longrightarrow> Hole \<notin> set xs \<Longrightarrow> Hole \<notin> set (js_set xs i v)"
  by (auto simp: js_set_def dest: set_update_subset_insert [THEN subsetD])

lemma handleAnswerSelect_inv:
  "quiz_inv qs s \<Longrightarrow> quiz_inv qs (handleAnswerSelect s opt)"
  by (simp add: quiz_inv_def handleAnswerSelect_def js_set_in_range spread_facts)

lemma handleCheckAnswer_inv:
  "quiz_inv qs s \<Longrightarrow> quiz_inv qs (handleCheckAnswer cq s)"
  using handleAnswerSelect_inv [of qs s "tempShortAnswer s"]
  by (simp add: handleCheckAnswer_def Let_def quiz_inv_def)

lemma handleSelfAssessment_inv:
  "quiz_inv qs s \<Longrightarrow> quiz_inv qs (handleSelfAssessment s b)"
  by (simp add: quiz_inv_def handleSelfAssessment_def js_set_in_range spread_facts)

lemma handleShortAnswerChange_inv:
  "quiz_inv qs s \<Longrightarrow> quiz_inv qs (handleShortAnswerChange s v)"
  by (simp add: quiz_inv_def handleShortAnswerChange_def)

lemma handleNext_advance:
  assumes "quiz_inv qs s" and "int (currentQuestionIndex s) < int (length qs) - 1"
  shows "\<exists>s'. handleNext qs s = (s', Inr None) \<and> quiz_inv qs s' \<and> \<not> showResults s' = (\<not> showResults s)"
  using assms by (auto simp: handleNext_def quiz_inv_def)

lemma handleNext_finish:
  assumes "quiz_inv qs s" and "\<not> int (currentQuestionIndex s) < int (length qs) - 1"
  shows "handleNext qs s =
    (s\<lparr>showResults := True\<rparr>,
     Inr (Some (Submission
       (scorePercentage (spec_correctCount qs (userAnswers s) (selfAssessedCorrectness s)) (length qs))
       (spec_correctCount qs (userAnswers s) (selfAssessedCorrectness s))
       (int (length qs)))))"
proof -
  have "reduce_correct qs (selfAssessedCorrectness s) (userAnswers s) 0 0 =
        Some (spec_correctCount qs (userAnswers s) (selfAssessedCorrectness s))"
    using assms(1) by (intro reduce_correct_all) (simp_all add: quiz_inv_def)
  then show ?thesis using assms(2) by (simp add: handleNext_def)
qed

lemma quiz_step_inv:
  assumes "quiz_inv qs s" and "quiz_step qs s ev = Inr (s', sub)"
  shows "quiz_inv qs s' \<and> (case sub of None \<Rightarrow> True | Some x \<Rightarrow> showResults s' \<and> x = graded qs s')"
proof (cases "showResults s")
  case True
  with assms show ?thesis by (simp add: quiz_step_def)
next
  case False
  have idx: "\<not> length qs \<le> currentQuestionIndex s"
    using assms(1) by (simp add: quiz_inv_def)
  show ?thesis
  proof (cases ev)
    case (ClickOption opt)
    with assms False idx show ?thesis
      by (auto simp: quiz_step_def Let_def handleAnswerSelect_inv split: if_splits)
  next
    case (TypeShortAnswer v)
    with assms False idx show ?thesis
      by (auto simp: quiz_step_def Let_def handleShortAnswerChange_inv split: if_splits)
  next
    case ClickCheck
    with assms False idx show ?thesis
      by (auto simp: quiz_step_def Let_def handleCheckAnswer_inv split: if_splits)
  next
    case (ClickSelfAssess b)
    with assms False idx show ?thesis
      by (auto simp: quiz_step_def Let_def handleSelfAssessment_inv split: if_splits)
  next
    case ClickNext
    show ?thesis
    proof (cases "isAnswerChecked s \<and> \<not> isNextButtonDisabled (qs ! currentQuestionIndex s) s")
      case off: False
      with assms False idx ClickNext show ?thesis
        by (auto simp: quiz_step_def Let_def)
    next
      case on: True
      show ?thesis
      proof (cases "int (currentQuestionIndex s) < int (length qs) - 1")
        case True
        from handleNext_advance [OF assms(1) True] obtain t
          where t: "handleNext qs s = (t, Inr None)" "quiz_inv qs t" by blast
        with assms False idx ClickNext on show ?thesis
          by (auto simp: quiz_step_def Let_def)
      next
        case last: False
        have inv': "quiz_inv qs (s\<lparr>showResults := True\<rparr>)"
          using assms(1) by (simp add: quiz_inv_def)
        from handleNext_finish [OF assms(1) last] assms False idx ClickNext on inv'
        show ?thesis
          by (auto simp: quiz_step_def Let_def graded_def)
      qed
    qed
  qed
qed

lemma run_quiz_shown: "showResults s \<Longrightarrow> run_quiz qs s evs = Inr (s, [])"
  by (induction evs) (simp_all add: quiz_step_def)

lemma run_quiz_graded:
  assumes "quiz_inv qs s" and "run_quiz qs s evs = Inr (s', subs)"
  shows "quiz_inv qs s' \<and> (subs = [] \<or> subs = [graded qs s'])"
  using assms
proof (induction evs arbitrary: s s' subs)
  case Nil
  then show ?case by simp
next
  case (Cons ev evs)
  from Cons.prems(2) obtain s1 sub1 where
    st: "quiz_step qs s ev = Inr (s1, sub1)"
    by (auto split: sum.splits)
  from Cons.prems(2) st obtain s2 subs2 where
    rn: "run_quiz qs s1 evs = Inr (s2, subs2)" and
    eq: "s' = s2" "subs = (case sub1 of None \<Rightarrow> subs2 | Some x \<Rightarrow> x # subs2)"
    by (auto split: sum.splits)
  from quiz_step_inv [OF Cons.prems(1) st]
  have inv1: "quiz_inv qs s1" and
    sub1: "case sub1 of None \<Rightarrow> True | Some x \<Rightarrow> showResults s1 \<and> x = graded qs s1"
    by simp_all
  show ?case
  proof (cases sub1)
    case None
    with Cons.IH [OF inv1 rn] eq show ?thesis by simp
  next
    case (Some x)
    with sub1 have shown: "showResults s1" and x: "x = graded qs s1" by simp_all
    from run_quiz_shown [OF shown, of qs evs] rn have "s2 = s1" "subs2 = []" by simp_all
    with eq Some x inv1 show ?thesis by simp
  qed
qed

lemma Quiz_graded:
  assumes "Quiz qs evs = Inr (s, subs)"
  shows "qs \<noteq> [] \<and> (subs = [] \<or> subs = [graded qs s])"
proof -
  from assms have ne: "qs \<noteq> []" and rn: "run_quiz qs (Quiz_init qs) evs = Inr (s, subs)"
    by (auto simp: Quiz_def split: if_splits)
  from run_quiz_graded [OF quiz_inv_init [OF ne] rn] ne show ?thesis by simp
qed

lemma example_run:
  "Quiz example_questions example_sitting =
     Inr (example_final, [Submission (Finite (2345624805922133 / 2 ^ 45)) 2 3])"
  by code_simp

lemma last_result:
  "lastResult (handleQuizSubmit standard subjectName now1 now2 s sc c n) =
     Some \<lparr>result_id = toISOString now1, date = toISOString now2,
            standardId = std_id standard, standardDescription = description standard,
            subject = subjectName, score = sc, totalQuestions = n, correctAnswers = c\<rparr> \<and>
   studyHistory (handleQuizSubmit standard subjectName now1 now2 s sc c n) =
     studyHistory s @
     [\<lparr>result_id = toISOString now1, date = toISOString now2,
       standardId = std_id standard, standardDescription = description standard,
       subject = subjectName, score = sc, totalQuestions = n, correctAnswers = c\<rparr>]"
  by (simp add: handleQuizSubmit_def Let_def)

text \<open>
  Claim C1 says that the score of a result equals
  \<open>100 * correctAnswers / totalQuestions\<close>. The score is computed in doubles as
  \<^verbatim>\<open>(correctCount / questions.length) * 100\<close>, and the two roundings show: with
  2 of 3 correct, as in the sitting above, the score stored is the double
  \<open>66.66666666666666\<close>, which is neither \<open>200/3\<close> nor the double nearest to it
  (\<open>66.66666666666667\<close>, what \<^verbatim>\<open>100 * 2 / 3\<close> evaluates to); and 7 of 25 give
  \<open>28.000000000000004\<close>, not \<open>28\<close>.
\<close>

theorem quiz_result_score_is_rounded_twice:
  "Quiz example_questions example_sitting =
     Inr (example_final, [Submission (Finite (2345624805922133 / 2 ^ 45)) 2 3]) \<and>
   map_option score
     (lastResult (handleQuizSubmit example_standard ''geography'' 1700000000000 1700000000000
                    (StudySession_init []) (Finite (2345624805922133 / 2 ^ 45)) 2 3)) =
     Some (Finite (2345624805922133 / 2 ^ 45)) \<and>
   (2345624805922133 / 2 ^ 45 :: rat) \<noteq> 100 * 2 / 3 \<and>
   (2345624805922133 / 2 ^ 45 :: rat) \<noteq> nearestDouble (100 * 2 / 3) \<and>
   scorePercentage 7 25 = Finite (28 + 1 / 2 ^ 48)"
proof (intro conjI)
  show "Quiz example_questions example_sitting =
     Inr (example_final, [Submission (Finite (2345624805922133 / 2 ^ 45)) 2 3])"
    by (rule example_run)
  show "map_option score
     (lastResult (handleQuizSubmit example_standard ''geography'' 1700000000000 1700000000000
                    (StudySession_init []) (Finite (2345624805922133 / 2 ^ 45)) 2 3)) =
     Some (Finite (2345624805922133 / 2 ^ 45))"
    by (simp add: last_result)
  show "(2345624805922133 / 2 ^ 45 :: rat) \<noteq> 100 * 2 / 3"
    by simp
  show "(2345624805922133 / 2 ^ 45 :: rat) \<noteq> nearestDouble (100 * 2 / 3)"
    by code_simp
  show "scorePercentage 7 25 = Finite (28 + 1 / 2 ^ 48)"
    by code_simp
qed

text \<open>
  Claim C1, amended. Every \<open>QuizResult\<close> that is created when a quiz over the
  question list \<open>qs\<close> completes, which is the record \<^verbatim>\<open>handleQuizSubmit\<close> stores
  as the last result and appends to the history, has as its score the double that
  \<^verbatim>\<open>(correctAnswers / totalQuestions) * 100\<close> evaluates to, rounded after the
  division and again after the multiplication. The score is finite, not negative,
  and differs from \<open>100 * correctAnswers / totalQuestions\<close> by at most that
  value times \<open>2\<^sup>-\<^sup>5\<^sup>1\<close> plus \<open>2\<^sup>-\<^sup>1\<^sup>0\<^sup>6\<^sup>7\<close>. And
  \<open>0 \<le> correctAnswers \<le> totalQuestions\<close>, where \<open>totalQuestions\<close> is the length of
  \<open>qs\<close>, which is not empty.
\<close>

theorem quiz_result_score_within_rounding:
  assumes "Quiz qs evs = Inr (q, subs)"
    and "Submission sc c n \<in> set subs"
  shows "\<exists>r x. lastResult (handleQuizSubmit standard subjectName now1 now2 s sc c n) = Some r \<and>
           studyHistory (handleQuizSubmit standard subjectName now1 now2 s sc c n) =
             studyHistory s @ [r] \<and>
           score r = scorePercentage (correctAnswers r) (nat (totalQuestions r)) \<and>
           score r = Finite x \<and> 0 \<le> x \<and>
           \<bar>x - 100 * of_int (correctAnswers r) / of_int (totalQuestions r)\<bar> \<le>
             (100 * of_int (correctAnswers r) / of_int (totalQuestions r)) / 2 ^ 51 +
             1 / 2 ^ 1067 \<and>
           0 \<le> correctAnswers r \<and> correctAnswers r \<le> totalQuestions r \<and>
           totalQuestions r = int (length qs) \<and> qs \<noteq> []"
proof -
  from Quiz_graded [OF assms(1)] assms(2)
  have ne: "qs \<noteq> []" and g: "Submission sc c n = graded qs q" by auto
  let ?k = "spec_correctCount qs (userAnswers q) (selfAssessedCorrectness q)"
  from g have c: "c = ?k" and n: "n = int (length qs)"
    and sc: "sc = scorePercentage c (length qs)"
    by (simp_all add: graded_def)
  have c0: "0 \<le> c" and cn: "c \<le> int (length qs)"
    using spec_correctCount_bounds [of qs "userAnswers q" "selfAssessedCorrectness q"]
    by (simp_all add: c)
  have len: "0 < length qs" using ne by simp
  from scorePercentage_error [OF c0 cn len] obtain x where
    x: "scorePercentage c (length qs) = Finite x" "0 \<le> x"
       "\<bar>x - 100 * of_int c / of_nat (length qs)\<bar> \<le>
          (100 * of_int c / of_nat (length qs)) / 2 ^ 51 + 1 / 2 ^ 1067"
    by blast
  let ?r = "\<lparr>result_id = toISOString now1, date = toISOString now2,
            standardId = std_id standard, standardDescription = description standard,
            subject = subjectName, score = sc, totalQuestions = n, correctAnswers = c\<rparr>"
  have "lastResult (handleQuizSubmit standard subjectName now1 now2 s sc c n) = Some ?r"
    and "studyHistory (handleQuizSubmit standard subjectName now1 now2 s sc c n) =
             studyHistory s @ [?r]"
    using last_result [of standard subjectName now1 now2 s sc c n] by simp_all
  moreover have "score ?r = scorePercentage (correctAnswers ?r) (nat (totalQuestions ?r))"
    by (simp add: sc n)
  moreover have "score ?r = Finite x" by (simp add: sc x(1))
  moreover have "\<bar>x - 100 * of_int (correctAnswers ?r) / of_int (totalQuestions ?r)\<bar> \<le>
             (100 * of_int (correctAnswers ?r) / of_int (totalQuestions ?r)) / 2 ^ 51 +
             1 / 2 ^ 1067"
    using x(3) by (simp add: n)
  moreover have "0 \<le> correctAnswers ?r" "correctAnswers ?r \<le> totalQuestions ?r"
    "totalQuestions ?r = int (length qs)"
    using c0 cn by (simp_all add: n)
  ultimately show ?thesis using x(2) ne by blast
qed

theorem quiz_result_score_within_rounding_witness:
  "Quiz example_questions example_sitting =
     Inr (example_final, [Submission (Finite (2345624805922133 / 2 ^ 45)) 2 3]) \<and>
   (\<exists>r x. lastResult (handleQuizSubmit example_standard ''geography'' 1700000000000
                       1700000000000 (StudySession_init [])
                       (Finite (2345624805922133 / 2 ^ 45)) 2 3) = Some r \<and>
          studyHistory (handleQuizSubmit example_standard ''geography'' 1700000000000
                       1700000000000 (StudySession_init [])
                       (Finite (2345624805922133 / 2 ^ 45)) 2 3) = [r] \<and>
          score r = Finite x \<and>
          \<bar>x - 100 * of_int (correctAnswers r) / of_int (totalQuestions r)\<bar> \<le>
            (100 * of_int (correctAnswers r) / of_int (totalQuestions r)) / 2 ^ 51 +
            1 / 2 ^ 1067 \<and>
          totalQuestions r = 3)"
proof -
  have m: "Submission (Finite (2345624805922133 / 2 ^ 45)) 2 3 \<in>
           set [Submission (Finite (2345624805922133 / 2 ^ 45)) 2 3]"
    by simp
  have h: "studyHistory (StudySession_init []) = []"
    by (simp add: StudySession_init_def)
  have l: "int (length example_questions) = 3"
    by (simp add: example_questions_def)
  from quiz_result_score_within_rounding
         [OF example_run m, of example_standard "''geography''" 1700000000000 1700000000000
            "StudySession_init []"]
  obtain r x where
    "lastResult (handleQuizSubmit example_standard ''geography'' 1700000000000
                       1700000000000 (StudySession_init [])
                       (Finite (2345624805922133 / 2 ^ 45)) 2 3) = Some r"
    "studyHistory (handleQuizSubmit example_standard ''geography'' 1700000000000
                       1700000000000 (StudySession_init [])
                       (Finite (2345624805922133 / 2 ^ 45)) 2 3) =
       studyHistory (StudySession_init []) @ [r]"
    "score r = Finite x"
    "\<bar>x - 100 * of_int (correctAnswers r) / of_int (totalQuestions r)\<bar> \<le>
            (100 * of_int (correctAnswers r) / of_int (totalQuestions r)) / 2 ^ 51 +
            1 / 2 ^ 1067"
    "totalQuestions r = int (length example_questions)"
    by blast
  then show ?thesis
    unfolding h l append_Nil using example_run by blast
qed

text \<open>
  Claim C2 ends with an example whose score it gives as \<open>200/3\<close>. The count of
  the example is 2, as the claim says, but the score submitted is the double
  \<open>66.66666666666666\<close>, the result of rounding \<open>2/3\<close> and then its hundredfold.
  It is not the fraction \<open>200/3\<close>, and not the double \<open>66.66666666666667\<close> that
  \<^verbatim>\<open>200 / 3\<close> evaluates to either.
\<close>

theorem example_score_is_not_two_hundred_thirds:
  "snd (handleNext example_questions example_final) =
     Inr (Some (Submission (Finite (2345624805922133 / 2 ^ 45)) 2 3)) \<and>
   (2345624805922133 / 2 ^ 45 :: rat) \<noteq> 200 / 3 \<and>
   toNumber (nearestDouble (200 / 3)) \<noteq> Finite (2345624805922133 / 2 ^ 45)"
proof (intro conjI)
  show "snd (handleNext example_questions example_final) =
     Inr (Some (Submission (Finite (2345624805922133 / 2 ^ 45)) 2 3))"
    by code_simp
  show "(2345624805922133 / 2 ^ 45 :: rat) \<noteq> 200 / 3"
    by simp
  show "toNumber (nearestDouble (200 / 3)) \<noteq> Finite (2345624805922133 / 2 ^ 45)"
    by code_simp
qed

text \<open>
  Claim C2, amended. When the quiz runner computes the final result, the correct
  count it submits is the number of indices that the specification counts as
  correct: short-answer with a self-assessment that is \<^verbatim>\<open>true\<close>, or
  multiple-choice/OX with a recorded answer equal to the question's answer as a
  string, with no normalisation; and the score it submits is
  \<^verbatim>\<open>(count / length) * 100\<close> in doubles. In particular, for questions of kinds
  multiple-choice, short-answer, OX with answers B, Paris, O, recorded answers B,
  Lyon, O and self-assessments null, false, null, advancing from the last
  question submits a count of 2 and the score \<open>66.66666666666666\<close>, which is
  within \<open>10\<^sup>-\<^sup>1\<^sup>4\<close> of \<open>200/3\<close>.
\<close>

theorem final_count_is_per_index_score_rounded:
  "(Quiz qs evs = Inr (q, subs) \<longrightarrow> Submission sc c n \<in> set subs \<longrightarrow>
      c = spec_correctCount qs (userAnswers q) (selfAssessedCorrectness q) \<and>
      sc = scorePercentage c (length qs) \<and> n = int (length qs)) \<and>
   (map questionType qs3 = [MultipleChoice, ShortAnswer, Ox] \<longrightarrow>
    map answer qs3 = [''B'', ''Paris'', ''O''] \<longrightarrow>
    userAnswers q3 = [Val ''B'', Val ''Lyon'', Val ''O''] \<longrightarrow>
    selfAssessedCorrectness q3 = [Null, Val False, Null] \<longrightarrow>
    currentQuestionIndex q3 = 2 \<longrightarrow>
      snd (handleNext qs3 q3) =
        Inr (Some (Submission (Finite (2345624805922133 / 2 ^ 45)) 2 3)) \<and>
      \<bar>2345624805922133 / 2 ^ 45 - 200 / 3 :: rat\<bar> < 1 / 10 ^ 14)"
proof (intro conjI impI)
  assume a: "Quiz qs evs = Inr (q, subs)" and b: "Submission sc c n \<in> set subs"
  from Quiz_graded [OF a] b have g: "Submission sc c n = graded qs q" by auto
  then show "c = spec_correctCount qs (userAnswers q) (selfAssessedCorrectness q)"
    and "sc = scorePercentage c (length qs)" and "n = int (length qs)"
    by (simp_all add: graded_def)
next
  assume t: "map questionType qs3 = [MultipleChoice, ShortAnswer, Ox]"
    and a: "map answer qs3 = [''B'', ''Paris'', ''O'']"
    and u: "userAnswers q3 = [Val ''B'', Val ''Lyon'', Val ''O'']"
    and v: "selfAssessedCorrectness q3 = [Null, Val False, Null]"
    and i: "currentQuestionIndex q3 = 2"
  from t obtain x y z where qs3: "qs3 = [x, y, z]"
    by (auto simp: map_eq_Cons_conv)
  with t a have f: "questionType x = MultipleChoice" "questionType y = ShortAnswer"
    "questionType z = Ox" "answer x = ''B''" "answer y = ''Paris''" "answer z = ''O''"
    by simp_all
  have sp: "scorePercentage 2 3 = Finite (2345624805922133 / 2 ^ 45)"
    by code_simp
  have "reduce_correct qs3 (selfAssessedCorrectness q3) (userAnswers q3) 0 0 = Some 2"
    by (simp add: qs3 u v f js_get_def Let_def)
  then show "snd (handleNext qs3 q3) =
        Inr (Some (Submission (Finite (2345624805922133 / 2 ^ 45)) 2 3))"
    using sp by (simp add: handleNext_def i qs3 numeral_3_eq_3)
next
  show "\<bar>2345624805922133 / 2 ^ 45 - 200 / 3 :: rat\<bar> < 1 / 10 ^ 14"
    by simp
qed

theorem final_count_is_per_index_score_rounded_witness:
  "Quiz example_questions example_sitting =
     Inr (example_final, [Submission (Finite (2345624805922133 / 2 ^ 45)) 2 3]) \<and>
   spec_correctCount example_questions (userAnswers example_final)
     (selfAssessedCorrectness example_final) = 2 \<and>
   scorePercentage 2 (length example_questions) = Finite (2345624805922133 / 2 ^ 45) \<and>
   snd (handleNext example_questions example_final) =
     Inr (Some (Submission (Finite (2345624805922133 / 2 ^ 45)) 2 3))"
proof -
  have m: "Submission (Finite (2345624805922133 / 2 ^ 45)) 2 3 \<in>
           set [Submission (Finite (2345624805922133 / 2 ^ 45)) 2 3]"
    by simp
  have t: "map questionType example_questions = [MultipleChoice, ShortAnswer, Ox]"
    and a: "map answer example_questions = [''B'', ''Paris'', ''O'']"
    by (simp_all add: example_questions_def)
  have u: "userAnswers example_final = [Val ''B'', Val ''Lyon'', Val ''O'']"
    and v: "selfAssessedCorrectness example_final = [Null, Val False, Null]"
    and i: "currentQuestionIndex example_final = 2"
    by (simp_all add: example_final_def)
  note th = final_count_is_per_index_score_rounded
         [of example_questions example_sitting example_final
             "[Submission (Finite (2345624805922133 / 2 ^ 45)) 2 3]"
             "Finite (2345624805922133 / 2 ^ 45)" 2 3
             example_questions example_final]
  from th example_run m
  have 1: "2 = spec_correctCount example_questions (userAnswers example_final)
     (selfAssessedCorrectness example_final)"
    and 2: "Finite (2345624805922133 / 2 ^ 45) = scorePercentage 2 (length example_questions)"
    by blast+
  from th t a u v i
  have 3: "snd (handleNext example_questions example_final) =
     Inr (Some (Submission (Finite (2345624805922133 / 2 ^ 45)) 2 3))"
    by blast
  from 1 2 3 example_run show ?thesis by simp
qed

section \<open>The identifier of a result\<close>

text \<open>
  Claim C10 says that every \<open>QuizResult\<close> has an id equal to its date. The two
  fields come from two reads of the clock, and the clock may tick between them:
  with the reads one millisecond apart the id ends in \<open>.000Z\<close> and the date in
  \<open>.001Z\<close>.
\<close>

theorem id_and_date_one_millisecond_apart:
  "map_option result_id
     (lastResult (handleQuizSubmit example_standard ''geography'' 1700000000000 1700000000001
                    (StudySession_init []) (Finite (200 / 3)) 2 3)) =
     Some ''2023-11-14T22:13:20.000Z'' \<and>
   map_option date
     (lastResult (handleQuizSubmit example_standard ''geography'' 1700000000000 1700000000001
                    (StudySession_init []) (Finite (200 / 3)) 2 3)) =
     Some ''2023-11-14T22:13:20.001Z''"
  by code_simp


text \<open>
  Claim C10, amended. The id of a \<open>QuizResult\<close> is the ISO-8601 string of the
  instant read for the id and its date that of the instant read next; they are
  equal when both reads return the same millisecond; and two results whose ids
  were read at the same millisecond have the same id.
\<close>

theorem id_and_date_are_two_readings:
  assumes "lastResult (handleQuizSubmit standard subjectName now1 now2 s sc c n) = Some r"
    and "lastResult (handleQuizSubmit standard' subjectName' now1' now2' s' sc' c' n') = Some r'"
  shows "result_id r = toISOString now1 \<and> date r = toISOString now2 \<and>
         (now2 = now1 \<longrightarrow> result_id r = date r) \<and>
         (now1' = now1 \<longrightarrow> result_id r' = result_id r)"
  using assms by (auto simp: handleQuizSubmit_def Let_def)

theorem id_and_date_are_two_readings_witness:
  "\<exists>r r'. lastResult (handleQuizSubmit example_standard ''geography'' 1700000000000 1700000000000
                    (StudySession_init []) (Finite (200 / 3)) 2 3) = Some r \<and>
     lastResult (handleQuizSubmit example_standard ''history'' 1700000000000 1700000000001
                    (StudySession_init []) (Finite 0) 0 3) = Some r' \<and>
     result_id r = ''2023-11-14T22:13:20.000Z'' \<and> result_id r = date r \<and>
     result_id r' = result_id r"
proof -
  obtain r where r: "lastResult (handleQuizSubmit example_standard ''geography'' 1700000000000
      1700000000000 (StudySession_init []) (Finite (200 / 3)) 2 3) = Some r"
    by (simp add: handleQuizSubmit_def Let_def)
  obtain r' where r': "lastResult (handleQuizSubmit example_standard ''history'' 1700000000000
      1700000000001 (StudySession_init []) (Finite 0) 0 3) = Some r'"
    by (simp add: handleQuizSubmit_def Let_def)
  have t: "toISOString 1700000000000 = ''2023-11-14T22:13:20.000Z''"
    by code_simp
  have "result_id r = toISOString 1700000000000 \<and> date r = toISOString 1700000000000 \<and>
         ((1700000000000::int) = 1700000000000 \<longrightarrow> result_id r = date r) \<and>
         ((1700000000000::int) = 1700000000000 \<longrightarrow> result_id r' = result_id r)"
    by (rule id_and_date_are_two_readings [OF r r'])
  then have "result_id r = ''2023-11-14T22:13:20.000Z''" "result_id r = date r"
    "result_id r' = result_id r"
    by (simp_all only: t refl simp_thms)
  with r r' show ?thesis by blast
qed

section \<open>The gateway\<close>

lemma foldl_count: "foldl (\<lambda>sum req. sum + count req) a requests = a + sum_list (map count requests)"
  by (induction requests arbitrary: a) simp_all

lemma totalRequested_sum: "totalRequested requests = sum_list (map count requests)"
  by (simp add: totalRequested_def foldl_count)

text \<open>
  Claim C6. When the counts of the requests sum to zero, \<^verbatim>\<open>generateQuestions\<close>
  returns the empty list and leaves the module and its surroundings as they were:
  no request is sent (and none is logged), whether or not the client was ever
  initialised. Non-negative counts that sum to zero are a case of this.
\<close>

theorem generateQuestions_nothing_requested:
  assumes "sum_list (map count requests) = 0"
  shows "generateQuestions be w topicDescription requests = (Inr (JArray []), w) \<and>
         calls (snd (generateQuestions be w topicDescription requests)) = calls w"
  using assms by (simp add: generateQuestions_def foldl_count)

theorem generateQuestions_nothing_requested_witness:
  "sum_list (map count zero_requests) = 0 \<and>
   generateQuestions (throwing NonError) fresh_gateway ''topic'' zero_requests =
     (Inr (JArray []), fresh_gateway) \<and>
   calls (snd (generateQuestions (throwing NonError) fresh_gateway ''topic'' zero_requests)) = []"
proof -
  have z: "sum_list (map count zero_requests) = 0"
    by (simp add: zero_requests_def)
  from generateQuestions_nothing_requested [OF z, of "throwing NonError" fresh_gateway "''topic''"] z
  show ?thesis by (simp add: fresh_gateway_def)
qed

text \<open>
  Claim C7 says that \<^verbatim>\<open>generateQuestions\<close> fails whenever the response cannot be
  parsed into the schema. It does not: a response whose text is JSON is returned
  as parsed, here an item that has a \<^verbatim>\<open>question\<close> and nothing else.
\<close>

theorem generateQuestions_returns_unchecked:
  "fst (generateQuestions (replying (Json incomplete_item)) ready_gateway ''topic'' one_request) =
     Inr incomplete_item \<and>
   \<not> matchesResponseSchema incomplete_item"
  by code_simp

lemma handleApiError_message:
  "fst (handleApiError w err) \<in> {MsgKeyInvalid, MsgFileProtocol, MsgCommunication}"
  by (simp add: handleApiError_def Let_def)

lemma failWith_fst: "fst (failWith w err) = Inl (fst (handleApiError w err))"
  by (simp add: failWith_def split: prod.splits)

lemma failWith_calls: "calls (snd (failWith w err)) = calls w"
  by (simp add: failWith_def handleApiError_def Let_def split: prod.splits)

lemma generateQuestions_unfold:
  assumes "sum_list (map count requests) \<noteq> 0"
  shows "generateQuestions be w topicDescription requests =
     (case ai w of
        None \<Rightarrow> failWith w (Error MsgNotInitialized)
      | Some a \<Rightarrow>
          (case generateContent be (questionsCall a topicDescription requests) of
             Inl err \<Rightarrow>
               failWith (w\<lparr>calls := calls w @ [questionsCall a topicDescription requests]\<rparr>) err
           | Inr response \<Rightarrow>
               (case response_text response of
                  NotJson m \<Rightarrow>
                    failWith (w\<lparr>calls := calls w @ [questionsCall a topicDescription requests]\<rparr>)
                      (Error (Raw m))
                | Json j \<Rightarrow>
                    (Inr j, w\<lparr>calls := calls w @ [questionsCall a topicDescription requests]\<rparr>))))"
  using assms
  by (simp add: generateQuestions_def foldl_count getAi_def questionsCall_def totalRequested_def
        Let_def split: option.splits sum.splits json_text.splits)

text \<open>
  Claim C7, amended. When the requested total is not zero, \<^verbatim>\<open>generateQuestions\<close>
  returns a value exactly when the client is initialised, the service answers the
  one request it sends, and the text of the answer is JSON; the value is what
  \<^verbatim>\<open>JSON.parse\<close> makes of the text, unchecked against the schema, which is only
  sent along with the request. Every failure carries one of the three messages of
  \<^verbatim>\<open>handleApiError\<close>: invalid key, file protocol, or communication failure.
\<close>

theorem generateQuestions_returns_parsed_text:
  assumes "sum_list (map count requests) \<noteq> 0"
  shows
    "(fst (generateQuestions be w topicDescription requests) = Inr j \<longleftrightarrow>
        (\<exists>a response. ai w = Some a \<and>
           generateContent be (questionsCall a topicDescription requests) = Inr response \<and>
           response_text response = Json j)) \<and>
     (\<forall>m. fst (generateQuestions be w topicDescription requests) = Inl m \<longrightarrow>
        m \<in> {MsgKeyInvalid, MsgFileProtocol, MsgCommunication}) \<and>
     (\<forall>a. ai w = Some a \<longrightarrow>
        calls (snd (generateQuestions be w topicDescription requests)) =
          calls w @ [questionsCall a topicDescription requests])"
proof (intro conjI allI impI)
  show "fst (generateQuestions be w topicDescription requests) = Inr j \<longleftrightarrow>
        (\<exists>a response. ai w = Some a \<and>
           generateContent be (questionsCall a topicDescription requests) = Inr response \<and>
           response_text response = Json j)"
    by (auto simp: generateQuestions_unfold [OF assms] failWith_fst
          split: option.splits sum.splits json_text.splits)
next
  fix m assume "fst (generateQuestions be w topicDescription requests) = Inl m"
  then show "m \<in> {MsgKeyInvalid, MsgFileProtocol, MsgCommunication}"
    using handleApiError_message
    by (auto simp: generateQuestions_unfold [OF assms] failWith_fst
          split: option.splits sum.splits json_text.splits)
next
  fix a assume "ai w = Some a"
  then show "calls (snd (generateQuestions be w topicDescription requests)) =
          calls w @ [questionsCall a topicDescription requests]"
    by (auto simp: generateQuestions_unfold [OF assms] failWith_calls
          split: option.splits sum.splits json_text.splits)
qed

theorem generateQuestions_returns_parsed_text_witness:
  "sum_list (map count one_request) \<noteq> 0 \<and>
   matchesResponseSchema conforming_list \<and>
   fst (generateQuestions (replying (Json conforming_list)) ready_gateway ''topic'' one_request) =
     Inr conforming_list \<and>
   calls (snd (generateQuestions (replying (Json conforming_list)) ready_gateway ''topic''
                 one_request)) =
     [questionsCall (GoogleGenAI ''key-1'') ''topic'' one_request]"
proof -
  have n: "sum_list (map count one_request) \<noteq> 0"
    by (simp add: one_request_def)
  have a: "ai ready_gateway = Some (GoogleGenAI ''key-1'')" and c: "calls ready_gateway = []"
    by (simp_all add: ready_gateway_def)
  have g: "generateContent (replying (Json conforming_list))
             (questionsCall (GoogleGenAI ''key-1'') ''topic'' one_request) =
           Inr \<lparr>response_text = Json conforming_list, inlineData = None\<rparr>"
    by (simp add: replying_def)
  have m: "matchesResponseSchema conforming_list"
    by code_simp
  from generateQuestions_returns_parsed_text
         [OF n, of "replying (Json conforming_list)" ready_gateway "''topic''" conforming_list]
       a c g m n
  show ?thesis by simp
qed

text \<open>
  Claim C9 says that \<^verbatim>\<open>validateApiKey\<close> fails with the invalid-key error exactly
  when the service reports an authentication failure, and with a network error on
  any other failure, for every key. The function does not go by what the service
  reports but looks for two phrases in the message: an expired key, which is an
  authentication failure, gets the network message; a missing entity, which is
  none, gets the invalid-key message; and the empty key gets a third message,
  that a key must be entered, without the service being asked.
\<close>

theorem validateApiKey_goes_by_two_phrases:
  "isAuthenticationFailure KeyExpired \<and>
   fst (validateApiKey (throwing (reported KeyExpired)) ready_gateway ''key-2'') =
     Inl MsgKeyCheckFailed \<and>
   \<not> isAuthenticationFailure EntityNotFound \<and>
   fst (validateApiKey (throwing (reported EntityNotFound)) ready_gateway ''key-2'') =
     Inl MsgKeyInvalidOnCheck \<and>
   validateApiKey (replying (Json JNull)) ready_gateway [] = (Inl MsgEnterKey, ready_gateway)"
  by code_simp

text \<open>
  Claim C9, amended. For every key \<^verbatim>\<open>validateApiKey\<close> leaves the module-level
  client as it was. For the empty key it fails at once with the message that a key
  must be entered. For any other key it sends one request through a client of its
  own made from that key, succeeds when the service answers, fails with the
  invalid-key message exactly when the service throws an \<^verbatim>\<open>Error\<close> whose message
  contains \<^verbatim>\<open>API key not valid\<close> or \<^verbatim>\<open>Requested entity was not found.\<close>, and
  fails with the check-the-network message exactly when the service throws
  anything else.
\<close>

theorem validateApiKey_frame_and_errors:
  "ai (snd (validateApiKey be w apiKey)) = ai w \<and>
   (apiKey = [] \<longrightarrow> validateApiKey be w apiKey = (Inl MsgEnterKey, w)) \<and>
   (apiKey \<noteq> [] \<longrightarrow>
      calls (snd (validateApiKey be w apiKey)) =
        calls w @ [Call (GoogleGenAI apiKey) ''gemini-2.5-flash'' Hello] \<and>
      (fst (validateApiKey be w apiKey) = Inl MsgKeyInvalidOnCheck \<longleftrightarrow>
         (\<exists>err. generateContent be (Call (GoogleGenAI apiKey) ''gemini-2.5-flash'' Hello) = Inl err \<and>
                isInvalidKeyError err)) \<and>
      (fst (validateApiKey be w apiKey) = Inl MsgKeyCheckFailed \<longleftrightarrow>
         (\<exists>err. generateContent be (Call (GoogleGenAI apiKey) ''gemini-2.5-flash'' Hello) = Inl err \<and>
                \<not> isInvalidKeyError err)) \<and>
      (fst (validateApiKey be w apiKey) = Inr () \<longleftrightarrow>
         (\<exists>response. generateContent be (Call (GoogleGenAI apiKey) ''gemini-2.5-flash'' Hello) =
                       Inr response)))"
  by (auto simp: validateApiKey_def Let_def split: sum.splits)

theorem validateApiKey_frame_and_errors_witness:
  "ai (snd (validateApiKey (throwing (Error (Raw ''API key not valid. Please pass a valid API key.'')))
              ready_gateway ''key-2'')) = Some (GoogleGenAI ''key-1'') \<and>
   calls (snd (validateApiKey (throwing (Error (Raw ''API key not valid. Please pass a valid API key.'')))
              ready_gateway ''key-2'')) = [Call (GoogleGenAI ''key-2'') ''gemini-2.5-flash'' Hello] \<and>
   fst (validateApiKey (throwing (Error (Raw ''API key not valid. Please pass a valid API key.'')))
              ready_gateway ''key-2'') = Inl MsgKeyInvalidOnCheck \<and>
   fst (validateApiKey (throwing (Error (Raw ''fetch failed''))) ready_gateway ''key-2'') =
     Inl MsgKeyCheckFailed \<and>
   validateApiKey (throwing (Error (Raw ''fetch failed''))) ready_gateway [] =
     (Inl MsgEnterKey, ready_gateway)"
proof -
  let ?e = "Error (Raw ''API key not valid. Please pass a valid API key.'')"
  have k: "''key-2'' \<noteq> []" by simp
  have i: "isInvalidKeyError ?e" by code_simp
  have j: "\<not> isInvalidKeyError (Error (Raw ''fetch failed''))" by code_simp
  have g: "generateContent (throwing err) c = Inl err" for err c
    by (simp add: throwing_def)
  have a: "ai ready_gateway = Some (GoogleGenAI ''key-1'')" and c: "calls ready_gateway = []"
    by (simp_all add: ready_gateway_def)
  from validateApiKey_frame_and_errors [of "throwing ?e" ready_gateway "''key-2''"]
       validateApiKey_frame_and_errors [of "throwing (Error (Raw ''fetch failed''))" ready_gateway "''key-2''"]
       validateApiKey_frame_and_errors [of "throwing (Error (Raw ''fetch failed''))" ready_gateway "[]"]
       k i j g a c
  show ?thesis by simp
qed

section \<open>The explanation stream\<close>

lemma chunk_accumulates:
  assumes "accumulating fs"
  shows "accumulating (explanationStep fs (Chunk t)) \<and>
         snd (explanationStep fs (Chunk t)) =
           (snd fs)\<lparr>sessionExplanation := sessionExplanation (snd fs) @ appended t\<rparr>"
  using assms by (cases fs) (simp add: accumulating_def explanationStep_def)

lemma chunks_accumulate:
  assumes "accumulating fs"
  shows "accumulating (foldl explanationStep fs (map Chunk ts)) \<and>
         snd (foldl explanationStep fs (map Chunk ts)) =
           (snd fs)\<lparr>sessionExplanation :=
                      sessionExplanation (snd fs) @ concat (map appended ts)\<rparr>"
  using assms
proof (induction ts arbitrary: fs)
  case Nil
  then show ?case by simp
next
  case (Cons t ts)
  from chunk_accumulates [OF Cons.prems, of t] Cons.IH [of "explanationStep fs (Chunk t)"]
  show ?case by simp
qed

lemma ready_accumulating:
  "accumulating (explanationStep (fetchExplanation s) StreamReady) \<and>
   snd (explanationStep (fetchExplanation s) StreamReady) =
     s\<lparr>isLoadingExplanation := False, isStreamingExplanation := True,
       sessionExplanation := [], explanationError := None\<rparr>"
  by (simp add: accumulating_def explanationStep_def fetchExplanation_def)

lemma end_of_stream:
  assumes "accumulating fs"
  shows "snd (explanationStep fs StreamEnd) = (snd fs)\<lparr>isStreamingExplanation := False\<rparr>"
  using assms by (cases fs) (simp add: accumulating_def explanationStep_def fetchFinally_def)

text \<open>
  What a run that is not torn down puts on display: after the chunks \<open>ts\<close> the
  article shows what \<^verbatim>\<open>+=\<close> made of them, with the cursor, and when the stream
  then completes it shows the same without the cursor. For chunks that all have a
  text this is the concatenation of their texts.
\<close>

lemma explanation_accumulates:
  "explanationArticle
     (snd (runExplanation (fetchExplanation s) (StreamReady # map Chunk ts))) =
     Markdown (concat (map appended ts)) True \<and>
   explanationArticle
     (snd (runExplanation (fetchExplanation s)
             (streamEvents (Inr \<lparr>chunks = ts, ending = StreamDone\<rparr>)))) =
     Markdown (concat (map appended ts)) False"
proof -
  let ?r = "explanationStep (fetchExplanation s) StreamReady"
  let ?m = "foldl explanationStep ?r (map Chunk ts)"
  note r = ready_accumulating [of s]
  from r have a: "accumulating ?r" by simp
  note m = chunks_accumulate [OF a, of ts]
  from m have b: "accumulating ?m" by simp
  have 1: "snd ?m = s\<lparr>isLoadingExplanation := False, isStreamingExplanation := True,
       sessionExplanation := concat (map appended ts), explanationError := None\<rparr>"
    using m r by simp
  have 2: "snd (explanationStep ?m StreamEnd) =
       s\<lparr>isLoadingExplanation := False, isStreamingExplanation := False,
         sessionExplanation := concat (map appended ts), explanationError := None\<rparr>"
    using end_of_stream [OF b] 1 by simp
  show ?thesis
    using 1 2 by (simp add: runExplanation_def streamEvents_def explanationArticle_def)
qed

lemma text_bearing_chunks: "concat (map appended (map Some ts)) = concat ts"
  by (induction ts) (simp_all add: appended_def)

text \<open>
  Claim C5 requires the explanation on display after a stream to be the
  concatenation of the fragments it delivered. A chunk need not have a text: for
  the fragment \<open>ab\<close> followed by a chunk without text, the article shows
  \<open>abundefined\<close> once the stream has completed.
\<close>

theorem chunk_without_text_shows_undefined:
  "explanationArticle
     (snd (runExplanation (fetchExplanation (StudySession_init []))
             (streamEvents (Inr \<lparr>chunks = [Some ''ab'', None], ending = StreamDone\<rparr>)))) =
     Markdown ''abundefined'' False"
  by (simp add: explanation_accumulates appended_def)

text \<open>A cancelled run never touches the session again, and the cleanup cancels.\<close>

lemma cancelled_run_changes_nothing:
  "isCancelled f \<Longrightarrow> snd (explanationStep (f, s) ev) = s"
  by (cases "phase f"; cases ev)
     (simp_all add: explanationStep_def fetchFinally_def fetchFailed_def)

lemma cleanup_cancels: "isCancelled (fst (effectCleanup fs))"
  by (cases fs) (simp add: effectCleanup_def)

section \<open>The chat\<close>

lemma runChat_append:
  "runChat s (xs @ ys) = (case runChat s xs of Inl e \<Rightarrow> Inl e | Inr s' \<Rightarrow> runChat s' ys)"
  by (induction xs arbitrary: s) (simp_all split: sum.splits)

lemma chat_chunks:
  assumes "conversation s = T @ [q, \<lparr>role = Model, msg_text = a\<rparr>]"
  shows "runChat s (map ChatChunk ts) =
           Inr (s\<lparr>conversation :=
                    T @ [q, \<lparr>role = Model, msg_text = a @ concat (map appended ts)\<rparr>]\<rparr>)"
  using assms
proof (induction ts arbitrary: s a)
  case Nil
  then show ?case by simp
next
  case (Cons t ts)
  let ?s1 = "s\<lparr>conversation := T @ [q, \<lparr>role = Model, msg_text = a @ appended t\<rparr>]\<rparr>"
  have l: "last (T @ [q, \<lparr>role = Model, msg_text = a\<rparr>]) = \<lparr>role = Model, msg_text = a\<rparr>"
    and b: "butlast (T @ [q, \<lparr>role = Model, msg_text = a\<rparr>]) = T @ [q]"
    by (simp_all add: butlast_append)
  have step: "chatStep s (ChatChunk t) = Inr ?s1"
    using Cons.prems by (simp add: chatStep_def appendChunk_def l b)
  have "runChat ?s1 (map ChatChunk ts) =
          Inr (?s1\<lparr>conversation :=
                     T @ [q, \<lparr>role = Model,
                              msg_text = (a @ appended t) @ concat (map appended ts)\<rparr>]\<rparr>)"
    by (rule Cons.IH) simp
  with step show ?case by simp
qed

text \<open>
  Claim C4. A chat turn that starts from the transcript of \<open>s\<close> and fails, at
  the call or after any fragments \<open>ts\<close> were applied, runs to its end and leaves
  the transcript of \<open>s\<close>: the question and the answer under construction are
  removed again and every earlier message is as it was. The turn is over
  (\<^verbatim>\<open>isAnswering\<close> is false) and the error is on display.
\<close>

theorem failed_turn_restores_transcript:
  assumes "handleAskQuestion s = Some s1"
  shows "\<exists>s2. runChat s1 (map ChatChunk ts @ [ChatFailed err]) = Inr s2 \<and>
              conversation s2 = conversation s \<and>
              length (conversation s2) = length (conversation s) \<and>
              \<not> isAnswering s2 \<and>
              qnaError s2 = Some (errorMessage err MsgAnsweringFailed)"
proof -
  let ?q = "\<lparr>role = User, msg_text = userQuestion s\<rparr>"
  from assms have c: "conversation s1 = conversation s @ [?q, \<lparr>role = Model, msg_text = []\<rparr>]"
    by (auto simp: handleAskQuestion_def Let_def split: if_splits)
  from chat_chunks [OF c, of ts]
  have "runChat s1 (map ChatChunk ts @ [ChatFailed err]) =
        chatStep (s1\<lparr>conversation :=
                       conversation s @
                       [?q, \<lparr>role = Model, msg_text = concat (map appended ts)\<rparr>]\<rparr>)
          (ChatFailed err)"
    by (simp add: runChat_append split: sum.splits)
  then show ?thesis
    by (simp add: chatStep_def)
qed

lemma example_session_asks: "handleAskQuestion example_session = Some example_asked"
  by (simp add: handleAskQuestion_def example_session_def example_asked_def StudySession_init_def
        isBlank_def isWhiteSpace_def Let_def)

theorem failed_turn_restores_transcript_witness:
  "handleAskQuestion example_session = Some example_asked \<and>
   (\<exists>s2. runChat example_asked
            (map ChatChunk [Some ''Be'', Some ''cause''] @
             [ChatFailed (Error MsgCommunication)]) = Inr s2 \<and>
         conversation s2 =
           [\<lparr>role = User, msg_text = ''hello''\<rparr>, \<lparr>role = Model, msg_text = ''hi''\<rparr>] \<and>
         qnaError s2 = Some MsgCommunication)"
proof -
  have c: "conversation example_session =
           [\<lparr>role = User, msg_text = ''hello''\<rparr>, \<lparr>role = Model, msg_text = ''hi''\<rparr>]"
    by (simp add: example_session_def)
  from failed_turn_restores_transcript
         [OF example_session_asks, of "[Some ''Be'', Some ''cause'']" "Error MsgCommunication"]
  obtain s2 where r:
    "runChat example_asked
       (map ChatChunk [Some ''Be'', Some ''cause''] @
        [ChatFailed (Error MsgCommunication)]) = Inr s2"
    "conversation s2 = conversation example_session"
    "qnaError s2 = Some (errorMessage (Error MsgCommunication) MsgAnsweringFailed)"
    by blast
  from r(3) have q: "qnaError s2 = Some MsgCommunication"
    by (simp add: errorMessage_def)
  from r(2) c have t: "conversation s2 =
           [\<lparr>role = User, msg_text = ''hello''\<rparr>, \<lparr>role = Model, msg_text = ''hi''\<rparr>]"
    by (simp only:)
  show ?thesis
    by (rule conjI [OF example_session_asks], rule exI [of _ s2], intro conjI)
       (rule r(1), rule t, rule q)
qed

section \<open>Teardown\<close>

lemma chatCalls_applied: "applySetters s (chatCalls ev) = chatStep s ev"
  by (cases ev) (simp_all add: chatCalls_def chatStep_def applySetter_def split: sum.splits)

lemma explanationCalls_applied:
  "applySetters s (explanationCalls f ev) = Inr (snd (explanationStep (f, s) ev))"
  by (cases "phase f"; cases ev; cases "isCancelled f")
     (simp_all add: explanationCalls_def explanationStep_def applySetter_def fetchFinally_def
        fetchFailed_def)

lemma cancelled_run_calls_nothing: "isCancelled f \<Longrightarrow> explanationCalls f ev = []"
  by (simp add: explanationCalls_def)

lemma cancelled_run_stays_cancelled: "isCancelled f \<Longrightarrow> isCancelled (fst (explanationStep (f, s) ev))"
  by (cases "phase f"; cases ev)
     (simp_all add: explanationStep_def fetchFinally_def fetchFailed_def)

lemma unmount_facts:
  "isCancelled (run (unmount c))" "\<not> mounted (unmount c)" "issued (unmount c) = issued c"
  by (simp_all add: unmount_def effectCleanup_def)

text \<open>
  Claim C3 says that a cancellation flag is checked before every state mutation
  that a fragment of either stream induces. The chat checks none: here a question
  is asked, the component is unmounted before an answer arrives (the cleanup runs
  and cancels the explanation run), and when the follow-up stream then delivers a
  fragment, its continuation calls \<^verbatim>\<open>setConversation\<close> for it all the same.
\<close>

theorem chat_calls_setter_after_unmount:
  "handleAskQuestion example_session = Some example_asked \<and>
   isCancelled (run (unmount example_component)) \<and>
   map_sum id issued (chatDelivers (unmount example_component) (ChatChunk (Some ''Because''))) =
     Inr [SetConversation (AppendToLast (Some ''Because''))]"
proof (intro conjI)
  show "handleAskQuestion example_session = Some example_asked"
    by (rule example_session_asks)
  show "isCancelled (run (unmount example_component))"
    by (rule unmount_facts)
  show "map_sum id issued
          (chatDelivers (unmount example_component) (ChatChunk (Some ''Because''))) =
        Inr [SetConversation (AppendToLast (Some ''Because''))]"
    by (simp add: chatDelivers_def dispatch_def unmount_facts chatCalls_def
          example_component_def)
qed

text \<open>
  Claim C3, amended. For the explanation stream, once the session is torn down no
  further fragment is applied to any session state: the flag \<^verbatim>\<open>isCancelled\<close>,
  which the teardown sets, is checked before every update the stream induces, so
  a cancelled run calls no setter and leaves the cells as they are. The chat
  follow-up stream checks no flag: after the teardown its continuation still
  calls its setters for every event of the stream. The teardown being an unmount,
  those calls change no cell either, React discarding them.
\<close>

theorem teardown_suppresses_stream_effects:
  "(isCancelled (run c) \<longrightarrow>
      explanationCalls (run c) ev = [] \<and>
      (\<exists>c'. streamDelivers c ev = Inr c' \<and> cells c' = cells c \<and> issued c' = issued c \<and>
            isCancelled (run c'))) \<and>
   isCancelled (run (unmount d)) \<and> \<not> mounted (unmount d) \<and>
   (\<exists>d'. chatDelivers (unmount d) cev = Inr d' \<and> cells d' = cells (unmount d) \<and>
         issued d' = issued d @ chatCalls cev)"
proof -
  have flag: "explanationCalls (run c) ev = [] \<and>
      (\<exists>c'. streamDelivers c ev = Inr c' \<and> cells c' = cells c \<and> issued c' = issued c \<and>
            isCancelled (run c'))"
    if "isCancelled (run c)"
    using that cancelled_run_stays_cancelled [of "run c" "cells c" ev]
    by (simp add: streamDelivers_def dispatch_def cancelled_run_calls_nothing)
  have chat: "\<exists>d'. chatDelivers (unmount d) cev = Inr d' \<and> cells d' = cells (unmount d) \<and>
         issued d' = issued d @ chatCalls cev"
    by (simp add: chatDelivers_def dispatch_def unmount_facts)
  from flag unmount_facts(1,2) [of d] chat show ?thesis
    by blast
qed

theorem teardown_suppresses_stream_effects_witness:
  "isCancelled (run (unmount example_component)) \<and>
   explanationCalls (run (unmount example_component)) (Chunk (Some ''late'')) = [] \<and>
   (\<exists>c'. streamDelivers (unmount example_component) (Chunk (Some ''late'')) = Inr c' \<and>
         cells c' = cells (unmount example_component) \<and> issued c' = []) \<and>
   (\<exists>d'. chatDelivers (unmount example_component) (ChatChunk (Some ''Because'')) = Inr d' \<and>
         cells d' = cells (unmount example_component) \<and>
         issued d' = [SetConversation (AppendToLast (Some ''Because''))])"
proof -
  have i: "issued (unmount example_component) = []" "issued example_component = []"
    by (simp_all add: unmount_facts example_component_def)
  have k: "chatCalls (ChatChunk (Some ''Because'')) =
           [SetConversation (AppendToLast (Some ''Because''))]"
    by (simp add: chatCalls_def)
  have u: "isCancelled (run (unmount example_component))"
    by (rule unmount_facts)
  from teardown_suppresses_stream_effects
         [where c = "unmount example_component" and ev = "Chunk (Some ''late'')"
            and d = example_component and cev = "ChatChunk (Some ''Because'')"]
  show ?thesis
    unfolding i k append_Nil using u by blast
qed

section \<open>Speech\<close>

text \<open>
  Claim C8 requires that using the speech control while audio is loading stops
  playback and leaves nothing held and both flags false. Here the control is used
  once (the session waits for \<^verbatim>\<open>generateSpeech\<close>) and once more (everything is
  cleared: the session is as it was before); when the audio then arrives, the
  pending half of the first use starts playback, holds a source and a context, and
  sets \<^verbatim>\<open>isSpeaking\<close>.
\<close>

theorem speech_starts_after_stop_while_loading:
  "isLoadingTTS (fst (handleToggleSpeak example_session)) \<and>
   snd (handleToggleSpeak example_session) =
     Some (''A capital is a seat of government.'', Kore) \<and>
   toggled_twice = example_session \<and>
   isSpeaking (speechSettled toggled_twice SpeechStarted) \<and>
   audioSourceRef (speechSettled toggled_twice SpeechStarted) = Some SourceNode \<and>
   audioContextRef (speechSettled toggled_twice SpeechStarted) = Some Running"
  by (simp add: toggled_twice_def handleToggleSpeak_def stopAllAudio_def speechSettled_def
        example_session_def StudySession_init_def Let_def)

text \<open>
  What does hold of \<^verbatim>\<open>stopAllAudio\<close>: after it no source is held and both flags
  are false, and a context is either not held, closed, or being closed; with
  nothing held it only clears the flags; and when playback had started, the stop
  followed by the completion of the close leaves neither source nor context.
\<close>

lemma stopAllAudio_releases:
  "audioSourceRef (stopAllAudio s) = None \<and> \<not> isSpeaking (stopAllAudio s) \<and>
   \<not> isLoadingTTS (stopAllAudio s) \<and>
   (audioContextRef (stopAllAudio s) = None \<or> audioContextRef (stopAllAudio s) = Some Closed \<or>
    0 < pendingCloses (stopAllAudio s))"
  by (auto simp: stopAllAudio_def Let_def split: option.splits)

lemma stopAllAudio_nothing_held:
  "audioSourceRef s = None \<Longrightarrow> audioContextRef s = None \<Longrightarrow>
   stopAllAudio s = s\<lparr>isSpeaking := False, isLoadingTTS := False\<rparr>"
  by (simp add: stopAllAudio_def)

lemma stop_while_speaking:
  assumes "isSpeaking s"
  shows "fst (handleToggleSpeak s) = stopAllAudio s"
    and "audioContextRef (closeResolved (stopAllAudio (speechSettled s0 SpeechStarted))) = None"
    and "audioSourceRef (closeResolved (stopAllAudio (speechSettled s0 SpeechStarted))) = None"
  using assms
  by (simp_all add: handleToggleSpeak_def stopAllAudio_def closeResolved_def speechSettled_def Let_def)

end
